theory Spec2Isabelle
  imports Main "HOL-Library.Log_Nat" "HOL-Library.Multiset"
begin

section \<open>Spano nutrition tracking backend: a shallow embedding of main.py\<close>

text \<open>
  The embedding follows \<^verbatim>\<open>src/main.py\<close>. The two process-wide dictionaries
  \<^verbatim>\<open>users\<close> and \<^verbatim>\<open>meals\<close> become association lists in insertion order
  (a Python dict iterates in insertion order and keeps the position of a key that is
  assigned again). Every endpoint takes the state and returns its result together with
  the state it leaves behind; an exception is the \<open>Inl\<close> branch of the result. The
  readings of \<^verbatim>\<open>datetime.now()\<close> are arguments of the endpoints.

  Strings are lists of 8-bit characters, read as the code points 0 to 255. Request
  validation done by the pydantic models before an endpoint runs is not part of the
  endpoints and is not modelled.
\<close>

subsection \<open>Python string operations\<close>

text \<open>\<^verbatim>\<open>str.isspace\<close> on the code points below 256.\<close>

definition py_isspace :: "char \<Rightarrow> bool" where
  "py_isspace c = (let n = (of_char c :: nat)
     in (9 \<le> n \<and> n \<le> 13) \<or> (28 \<le> n \<and> n \<le> 32) \<or> n = 133 \<or> n = 160)"

text \<open>\<^verbatim>\<open>s.strip()\<close>: leading and trailing whitespace removed.\<close>

definition py_strip :: "string \<Rightarrow> string" where
  "py_strip s = rev (dropWhile py_isspace (rev (dropWhile py_isspace s)))"

text \<open>\<^verbatim>\<open>s.lower()\<close> on the code points below 256: A-Z and the accented capitals.\<close>

definition lower_char :: "char \<Rightarrow> char" where
  "lower_char c = (let n = (of_char c :: nat)
     in if (65 \<le> n \<and> n \<le> 90) \<or> (192 \<le> n \<and> n \<le> 222 \<and> n \<noteq> 215)
        then char_of (n + 32) else c)"

definition py_lower :: "string \<Rightarrow> string" where
  "py_lower s = map lower_char s"

text \<open>\<^verbatim>\<open>s.startswith(p)\<close>.\<close>

definition startswith :: "string \<Rightarrow> string \<Rightarrow> bool" where
  "startswith s p = (take (length p) s = p)"

text \<open>\<^verbatim>\<open>s.split(c)\<close> for a one-character separator: the empty string gives one empty token.\<close>

fun py_split :: "char \<Rightarrow> string \<Rightarrow> string list" where
  "py_split c [] = [[]]"
| "py_split c (x # xs) =
     (if x = c then [] # py_split c xs
      else (case py_split c xs of [] \<Rightarrow> [[x]] | t # ts \<Rightarrow> (x # t) # ts))"

text \<open>\<^verbatim>\<open>s.split(c, 1)\<close>: at most one split, at the first occurrence of the separator.\<close>

definition py_split1 :: "char \<Rightarrow> string \<Rightarrow> string list" where
  "py_split1 c s =
     (if c \<in> set s then [takeWhile (\<lambda>x. x \<noteq> c) s, tl (dropWhile (\<lambda>x. x \<noteq> c) s)] else [s])"

text \<open>\<^verbatim>\<open>str(n)\<close> for integers: decimal digits, a minus sign for negative numbers.\<close>

fun str_nat :: "nat \<Rightarrow> string" where
  "str_nat n =
     (if n < 10 then [char_of (48 + n)] else str_nat (n div 10) @ [char_of (48 + n mod 10)])"

declare str_nat.simps [simp del]

definition str_int :: "int \<Rightarrow> string" where
  "str_int i = (if i < 0 then CHR ''-'' # str_nat (nat (- i)) else str_nat (nat i))"

subsection \<open>Python numbers\<close>

text \<open>
  A Python \<^verbatim>\<open>float\<close> is an IEEE 754 binary64 number. The model keeps the value of a
  finite float as a rational and rounds the exact result of every operation to 53
  significant bits, ties to even, as the hardware does. The exponent range is left
  unbounded: overflow to infinity (beyond about 1.8e308) and gradual underflow (below
  about 2.2e-308) are outside the model, and so is the \<^verbatim>\<open>OverflowError\<close> of converting
  an integer beyond that range.
\<close>

definition pow2 :: "int \<Rightarrow> rat" where
  "pow2 k = (if 0 \<le> k then 2 ^ nat k else 1 / 2 ^ nat (- k))"

definition round_half_even :: "rat \<Rightarrow> int" where
  "round_half_even x =
     (let f = \<lfloor>x\<rfloor>; d = x - of_int f
      in if d < 1 / 2 then f else if 1 / 2 < d then f + 1 else if even f then f else f + 1)"

text \<open>The exponent \<open>e\<close> of the leading bit of a positive rational: \<open>2^e \<le> x < 2^(e+1)\<close>.\<close>

definition fexp :: "rat \<Rightarrow> int" where
  "fexp x = (case quotient_of x of (p, q) \<Rightarrow>
      (let d = bitlen p - bitlen q in if pow2 d \<le> x then d else d - 1))"

text \<open>Rounding to the nearest binary64 value.\<close>

definition rnd :: "rat \<Rightarrow> rat" where
  "rnd x = (if x = 0 then 0 else
     (let k = fexp \<bar>x\<bar> - 52 in of_int (round_half_even (x / pow2 k)) * pow2 k))"

text \<open>A float literal of the source, such as \<^verbatim>\<open>88.362\<close>, is the nearest binary64 value.\<close>

definition float_lit :: "rat \<Rightarrow> rat" where
  "float_lit q = rnd q"

definition float_of_int :: "int \<Rightarrow> rat" where
  "float_of_int i = rnd (of_int i)"

definition fadd :: "rat \<Rightarrow> rat \<Rightarrow> rat" where
  "fadd x y = rnd (x + y)"

definition fsub :: "rat \<Rightarrow> rat \<Rightarrow> rat" where
  "fsub x y = rnd (x - y)"

definition fmul :: "rat \<Rightarrow> rat \<Rightarrow> rat" where
  "fmul x y = rnd (x * y)"

text \<open>
  \<^verbatim>\<open>round(x, 2)\<close> on a float: the exact value is rounded to two decimals, ties to even,
  and the decimal result is converted to the nearest float.
\<close>

definition py_round2 :: "rat \<Rightarrow> rat" where
  "py_round2 x = rnd (of_int (round_half_even (x * 100)) / 100)"

text \<open>
  The entries of the food table and the running totals are Python numbers, either
  \<^verbatim>\<open>int\<close> (unbounded, exact) or \<^verbatim>\<open>float\<close>. \<^verbatim>\<open>a + b\<close> stays an integer on two
  integers and is a float addition otherwise, the integer operand converted first.
\<close>

datatype pynum = PInt int | PFloat rat

fun py_add :: "pynum \<Rightarrow> pynum \<Rightarrow> pynum" where
  "py_add (PInt a) (PInt b) = PInt (a + b)"
| "py_add (PInt a) (PFloat y) = PFloat (fadd (float_of_int a) y)"
| "py_add (PFloat x) (PInt b) = PFloat (fadd x (float_of_int b))"
| "py_add (PFloat x) (PFloat y) = PFloat (fadd x y)"

text \<open>The numeric value, which is what Python's \<^verbatim>\<open>==\<close> compares.\<close>

fun py_val :: "pynum \<Rightarrow> rat" where
  "py_val (PInt a) = of_int a"
| "py_val (PFloat x) = x"

subsection \<open>Data model\<close>

record nutrient_totals =
  calories :: pynum
  protein :: pynum
  carbs :: pynum
  fiber :: pynum

record datetime =
  year :: nat
  month :: nat
  day :: nat
  hour :: nat
  minute :: nat
  second :: nat
  microsecond :: nat

text \<open>\<^verbatim>\<open>d.date()\<close>.\<close>

definition date_of :: "datetime \<Rightarrow> nat \<times> nat \<times> nat" where
  "date_of d = (year d, month d, day d)"

text \<open>The fields of \<^verbatim>\<open>UserRegistration\<close>, \<^verbatim>\<open>MealLogging\<close> and of the stored dictionaries.\<close>

record user_registration =
  name :: string
  age :: int
  weight :: rat
  height :: rat
  gender :: string
  goal :: string

text \<open>A stored user; \<open>uid\<close> is the entry \<^verbatim>\<open>"id"\<close>.\<close>

record user = user_registration +
  uid :: string
  bmr :: rat
  created_at :: datetime

record meal_logging =
  user :: string
  meal :: string
  items :: "string list"

text \<open>
  A stored meal; \<open>mid\<close> is the entry \<^verbatim>\<open>"id"\<close>. The source stores
  \<^verbatim>\<open>datetime.now().isoformat()\<close> under \<^verbatim>\<open>"logged_at"\<close> and reads it back with
  \<^verbatim>\<open>datetime.fromisoformat\<close>, which returns the datetime that was rendered; the
  model keeps that datetime.
\<close>

record meal_rec =
  mid :: string
  user_id :: string
  meal_type :: string
  food_items :: "string list"
  logged_at :: datetime
  nutrients :: nutrient_totals

record state =
  users :: "(string \<times> user) list"
  meals :: "(string \<times> meal_rec) list"

definition init :: state where
  "init = \<lparr>users = [], meals = []\<rparr>"

text \<open>\<^verbatim>\<open>d[k] = v\<close>: a present key keeps its position, a new key goes to the end.\<close>

fun dict_set :: "'k \<Rightarrow> 'v \<Rightarrow> ('k \<times> 'v) list \<Rightarrow> ('k \<times> 'v) list" where
  "dict_set k v [] = [(k, v)]"
| "dict_set k v ((k', v') # r) = (if k' = k then (k, v) # r else (k', v') # dict_set k v r)"

text \<open>\<^verbatim>\<open>k in d\<close>.\<close>

definition dict_in :: "'k \<Rightarrow> ('k \<times> 'v) list \<Rightarrow> bool" where
  "dict_in k d = (map_of d k \<noteq> None)"

text \<open>
  The failures of the endpoints. \<open>InvalidGender\<close> is the \<^verbatim>\<open>ValueError\<close> of
  \<^verbatim>\<open>calculate_bmr\<close>; the others are the \<^verbatim>\<open>HTTPException\<close>s, told apart by their
  status and detail text: \<open>RegistrationFailed\<close> (400, "Registration failed: ..."),
  \<open>UserNotFound\<close> (404, "User not found"), \<open>InvalidMealType\<close> (400, "Invalid meal
  type. ..."), \<open>InvalidFormatPrefix\<close> (400, "Invalid message format. Must start with
  'log '"), \<open>InvalidFormatParts\<close> (400, "Invalid message format. Expected: ..."),
  \<open>NoFoodItems\<close> (400, "No food items provided"), \<open>WebhookFailed\<close> (400, "Webhook
  processing failed: ...") and \<open>InvalidDateFormat\<close> (400, "Invalid date format. Use
  YYYY-MM-DD").
\<close>

datatype error =
    InvalidGender
  | RegistrationFailed
  | UserNotFound
  | InvalidMealType
  | InvalidFormatPrefix
  | InvalidFormatParts
  | NoFoodItems
  | WebhookFailed
  | InvalidDateFormat

text \<open>The two failures the specification calls \<open>InvalidFormat\<close>.\<close>

fun is_InvalidFormat :: "error + 'a \<Rightarrow> bool" where
  "is_InvalidFormat (Inl InvalidFormatPrefix) = True"
| "is_InvalidFormat (Inl InvalidFormatParts) = True"
| "is_InvalidFormat _ = False"

subsection \<open>The food table\<close>

definition nt :: "pynum \<Rightarrow> pynum \<Rightarrow> pynum \<Rightarrow> pynum \<Rightarrow> nutrient_totals" where
  "nt c p cb f = \<lparr>calories = c, protein = p, carbs = cb, fiber = f\<rparr>"

definition food_database :: "(string \<times> nutrient_totals) list" where
  "food_database =
   [(''rice'', nt (PInt 130) (PFloat (float_lit (27 / 10))) (PInt 28) (PFloat (float_lit (4 / 10)))),
    (''dal'', nt (PInt 116) (PFloat (float_lit (68 / 10))) (PInt 20) (PFloat (float_lit (75 / 10)))),
    (''cucumber'', nt (PInt 16) (PFloat (float_lit (7 / 10))) (PFloat (float_lit (36 / 10))) (PFloat (float_lit (5 / 10)))),
    (''chicken'', nt (PInt 165) (PInt 31) (PInt 0) (PInt 0)),
    (''bread'', nt (PInt 265) (PInt 9) (PInt 49) (PFloat (float_lit (27 / 10)))),
    (''milk'', nt (PInt 42) (PFloat (float_lit (34 / 10))) (PInt 5) (PInt 0)),
    (''egg'', nt (PInt 155) (PInt 13) (PFloat (float_lit (11 / 10))) (PInt 0)),
    (''banana'', nt (PInt 89) (PFloat (float_lit (11 / 10))) (PInt 23) (PFloat (float_lit (26 / 10)))),
    (''apple'', nt (PInt 52) (PFloat (float_lit (3 / 10))) (PInt 14) (PFloat (float_lit (24 / 10)))),
    (''salad'', nt (PInt 20) (PInt 2) (PInt 4) (PFloat (float_lit (15 / 10)))),
    (''pasta'', nt (PInt 131) (PInt 5) (PInt 25) (PFloat (float_lit (18 / 10)))),
    (''fish'', nt (PInt 84) (PInt 18) (PInt 0) (PInt 0)),
    (''beef'', nt (PInt 250) (PInt 26) (PInt 0) (PInt 0)),
    (''potato'', nt (PInt 77) (PInt 2) (PInt 17) (PFloat (float_lit (22 / 10)))),
    (''tomato'', nt (PInt 18) (PFloat (float_lit (9 / 10))) (PFloat (float_lit (39 / 10))) (PFloat (float_lit (12 / 10)))),
    (''onion'', nt (PInt 40) (PFloat (float_lit (11 / 10))) (PFloat (float_lit (93 / 10))) (PFloat (float_lit (17 / 10)))),
    (''carrot'', nt (PInt 41) (PFloat (float_lit (9 / 10))) (PInt 10) (PFloat (float_lit (28 / 10)))),
    (''spinach'', nt (PInt 23) (PFloat (float_lit (29 / 10))) (PFloat (float_lit (36 / 10))) (PFloat (float_lit (22 / 10)))),
    (''yogurt'', nt (PInt 59) (PInt 10) (PFloat (float_lit (36 / 10))) (PInt 0)),
    (''cheese'', nt (PInt 113) (PInt 7) (PFloat (float_lit (4 / 10))) (PInt 0))]"

subsection \<open>BMR calculation and nutrient aggregation\<close>

definition calculate_bmr :: "rat \<Rightarrow> rat \<Rightarrow> int \<Rightarrow> string \<Rightarrow> error + rat" where
  "calculate_bmr w h a g =
     (if py_lower g = ''male'' then
        Inr (py_round2 (fsub (fadd (fadd (float_lit (88362 / 1000)) (fmul (float_lit (13397 / 1000)) w))
                                   (fmul (float_lit (4799 / 1000)) h))
                             (fmul (float_lit (5677 / 1000)) (float_of_int a))))
      else if py_lower g = ''female'' then
        Inr (py_round2 (fsub (fadd (fadd (float_lit (447593 / 1000)) (fmul (float_lit (9247 / 1000)) w))
                                   (fmul (float_lit (3098 / 1000)) h))
                             (fmul (float_lit (433 / 100)) (float_of_int a))))
      else Inl InvalidGender)"

definition zero_totals :: nutrient_totals where
  "zero_totals = \<lparr>calories = PInt 0, protein = PInt 0, carbs = PInt 0, fiber = PInt 0\<rparr>"

text \<open>The four \<^verbatim>\<open>+=\<close> statements shared by the two accumulation loops.\<close>

definition add_totals :: "nutrient_totals \<Rightarrow> nutrient_totals \<Rightarrow> nutrient_totals" where
  "add_totals t n =
     \<lparr>calories = py_add (calories t) (calories n),
      protein = py_add (protein t) (protein n),
      carbs = py_add (carbs t) (carbs n),
      fiber = py_add (fiber t) (fiber n)\<rparr>"

text \<open>The loop of \<^verbatim>\<open>calculate_nutrients\<close>, with the running totals as accumulator.\<close>

fun nutrients_loop :: "nutrient_totals \<Rightarrow> string list \<Rightarrow> nutrient_totals" where
  "nutrients_loop t [] = t"
| "nutrients_loop t (item # rest) =
     (let item_lower = py_strip (py_lower item)
      in case map_of food_database item_lower of
           Some n \<Rightarrow> nutrients_loop (add_totals t n) rest
         | None \<Rightarrow> nutrients_loop t rest)"

definition calculate_nutrients :: "string list \<Rightarrow> nutrient_totals" where
  "calculate_nutrients fs = nutrients_loop zero_totals fs"

subsection \<open>Parsing the date filter\<close>

text \<open>
  \<^verbatim>\<open>datetime.strptime(date, "%Y-%m-%d")\<close> matches the regular expression
  \<^verbatim>\<open>(\d\d\d\d)-(1[0-2]|0[1-9]|[1-9])-(3[0-1]|[1-2]\d|0[1-9]|[1-9]| [1-9])\<close> at the start
  of the string, fails when it does not match or when text remains after the match, and
  then builds the date, which fails for a year 0 or a day beyond the end of the month.
  Each group is modelled as the list of its matches in the order the backtracking
  matcher tries them, so the match taken is the first of the combined list.
\<close>

definition is_digit :: "char \<Rightarrow> bool" where
  "is_digit c = (let n = (of_char c :: nat) in 48 \<le> n \<and> n \<le> 57)"

definition digit_val :: "char \<Rightarrow> nat" where
  "digit_val c = of_char c - 48"

definition is_digit_in :: "nat \<Rightarrow> nat \<Rightarrow> char \<Rightarrow> bool" where
  "is_digit_in lo hi c = (is_digit c \<and> lo \<le> digit_val c \<and> digit_val c \<le> hi)"

definition re_lit :: "char \<Rightarrow> string \<Rightarrow> string list" where
  "re_lit c s = (case s of [] \<Rightarrow> [] | x # r \<Rightarrow> if x = c then [r] else [])"

definition re_Y :: "string \<Rightarrow> (nat \<times> string) list" where
  "re_Y s = (case s of
       a # b # c # d # r \<Rightarrow>
         if is_digit a \<and> is_digit b \<and> is_digit c \<and> is_digit d
         then [(1000 * digit_val a + 100 * digit_val b + 10 * digit_val c + digit_val d, r)]
         else []
     | _ \<Rightarrow> [])"

text \<open>Two characters \<open>a b\<close> with \<open>a\<close> and \<open>b\<close> in the given digit ranges.\<close>

definition re_two :: "nat \<Rightarrow> nat \<Rightarrow> nat \<Rightarrow> nat \<Rightarrow> string \<Rightarrow> (nat \<times> string) list" where
  "re_two alo ahi blo bhi s = (case s of
       a # b # r \<Rightarrow>
         if is_digit_in alo ahi a \<and> is_digit_in blo bhi b
         then [(10 * digit_val a + digit_val b, r)] else []
     | _ \<Rightarrow> [])"

definition re_one :: "nat \<Rightarrow> nat \<Rightarrow> string \<Rightarrow> (nat \<times> string) list" where
  "re_one lo hi s = (case s of
       a # r \<Rightarrow> if is_digit_in lo hi a then [(digit_val a, r)] else []
     | _ \<Rightarrow> [])"

definition re_m :: "string \<Rightarrow> (nat \<times> string) list" where
  "re_m s = re_two 1 1 0 2 s @ re_two 0 0 1 9 s @ re_one 1 9 s"

definition re_d :: "string \<Rightarrow> (nat \<times> string) list" where
  "re_d s = re_two 3 3 0 1 s @ re_two 1 2 0 9 s @ re_two 0 0 1 9 s @ re_one 1 9 s
            @ concat (map (re_one 1 9) (re_lit CHR '' '' s))"

definition re_ymd :: "string \<Rightarrow> ((nat \<times> nat \<times> nat) \<times> string) list" where
  "re_ymd s =
     [((y, m, d), r4). (y, r0) \<leftarrow> re_Y s, r1 \<leftarrow> re_lit CHR ''-'' r0, (m, r2) \<leftarrow> re_m r1,
                       r3 \<leftarrow> re_lit CHR ''-'' r2, (d, r4) \<leftarrow> re_d r3]"

definition is_leap :: "nat \<Rightarrow> bool" where
  "is_leap y = (y mod 4 = 0 \<and> (y mod 100 \<noteq> 0 \<or> y mod 400 = 0))"

definition days_in_month :: "nat \<Rightarrow> nat \<Rightarrow> nat" where
  "days_in_month y m =
     (if m = 2 then (if is_leap y then 29 else 28)
      else if m = 4 \<or> m = 6 \<or> m = 9 \<or> m = 11 then 30 else 31)"

definition valid_date :: "nat \<Rightarrow> nat \<Rightarrow> nat \<Rightarrow> bool" where
  "valid_date y m d = (1 \<le> y \<and> y \<le> 9999 \<and> 1 \<le> m \<and> m \<le> 12 \<and> 1 \<le> d \<and> d \<le> days_in_month y m)"

text \<open>The date of \<^verbatim>\<open>datetime.strptime(s, "%Y-%m-%d").date()\<close>, or \<open>None\<close> for a \<^verbatim>\<open>ValueError\<close>.\<close>

definition strptime_ymd :: "string \<Rightarrow> (nat \<times> nat \<times> nat) option" where
  "strptime_ymd s = (case re_ymd s of
       [] \<Rightarrow> None
     | ((y, m, d), r) # _ \<Rightarrow>
         if r \<noteq> [] then None else if valid_date y m d then Some (y, m, d) else None)"

subsection \<open>Endpoints\<close>

definition valid_meals :: "string list" where
  "valid_meals = [''breakfast'', ''lunch'', ''dinner'']"

text \<open>
  \<^verbatim>\<open>register_user\<close>; \<open>ts\<close> is \<^verbatim>\<open>int(datetime.now().timestamp())\<close> and \<open>now\<close> the
  later reading stored as \<^verbatim>\<open>created_at\<close>. The result is \<^verbatim>\<open>user_id\<close> and \<^verbatim>\<open>bmr\<close>.
\<close>

definition register_user ::
  "state \<Rightarrow> user_registration \<Rightarrow> int \<Rightarrow> datetime \<Rightarrow> (error + string \<times> rat) \<times> state" where
  "register_user s d ts now =
     (case calculate_bmr (weight d) (height d) (age d) (gender d) of
        Inl e \<Rightarrow> (Inl RegistrationFailed, s)
      | Inr b \<Rightarrow>
          (let i = ''user_'' @ str_nat (length (users s) + 1) @ ''_'' @ str_int ts
           in (Inr (i, b),
               s\<lparr>users := dict_set i
                    \<lparr>name = name d, age = age d, weight = weight d, height = height d,
                     gender = gender d, goal = goal d, uid = i, bmr = b, created_at = now\<rparr>
                    (users s)\<rparr>)))"

text \<open>\<^verbatim>\<open>log_meals\<close>; the result is \<^verbatim>\<open>meal_id\<close> and \<^verbatim>\<open>nutrients\<close>.\<close>

definition log_meals ::
  "state \<Rightarrow> meal_logging \<Rightarrow> int \<Rightarrow> datetime \<Rightarrow> (error + string \<times> nutrient_totals) \<times> state" where
  "log_meals s d ts now =
     (if \<not> dict_in (user d) (users s) then (Inl UserNotFound, s)
      else if py_lower (meal d) \<notin> set valid_meals then (Inl InvalidMealType, s)
      else
        (let n = calculate_nutrients (items d);
             i = ''meal_'' @ str_nat (length (meals s) + 1) @ ''_'' @ str_int ts
         in (Inr (i, n),
             s\<lparr>meals := dict_set i
                  \<lparr>mid = i, user_id = user d, meal_type = py_lower (meal d),
                   food_items = items d, logged_at = now, nutrients = n\<rparr>
                  (meals s)\<rparr>)))"

text \<open>
  \<^verbatim>\<open>get_user_meals\<close>; the result is \<^verbatim>\<open>meals\<close> and \<^verbatim>\<open>total_meals\<close>. The test
  \<^verbatim>\<open>if date:\<close> is false both for \<^verbatim>\<open>None\<close> and for the empty string.
\<close>

definition get_user_meals ::
  "state \<Rightarrow> string \<Rightarrow> string option \<Rightarrow> error + meal_rec list \<times> nat" where
  "get_user_meals s u date =
     (if \<not> dict_in u (users s) then Inl UserNotFound
      else
        (let user_meals = filter (\<lambda>m. user_id m = u) (map snd (meals s))
         in case date of
              None \<Rightarrow> Inr (user_meals, length user_meals)
            | Some ds \<Rightarrow>
                if ds = [] then Inr (user_meals, length user_meals)
                else (case strptime_ymd ds of
                        None \<Rightarrow> Inl InvalidDateFormat
                      | Some filter_date \<Rightarrow>
                          (let filtered_meals =
                                 filter (\<lambda>m. date_of (logged_at m) = filter_date) user_meals
                           in Inr (filtered_meals, length filtered_meals)))))"

text \<open>The accumulation loop of \<^verbatim>\<open>get_user_status\<close>.\<close>

fun status_loop :: "nutrient_totals \<Rightarrow> meal_rec list \<Rightarrow> nutrient_totals" where
  "status_loop t [] = t"
| "status_loop t (m # ms) = status_loop (add_totals t (nutrients m)) ms"

record user_status =
  status_user :: string
  status_name :: string
  status_bmr :: rat
  consumed_nutrients :: nutrient_totals
  total_meals :: nat

definition get_user_status :: "state \<Rightarrow> string \<Rightarrow> error + user_status" where
  "get_user_status s u =
     (case map_of (users s) u of
        None \<Rightarrow> Inl UserNotFound
      | Some usr \<Rightarrow>
          (let user_meals = filter (\<lambda>m. user_id m = u) (map snd (meals s));
               total_nutrients = status_loop zero_totals user_meals
           in Inr \<lparr>status_user = u, status_name = name usr, status_bmr = bmr usr,
                   consumed_nutrients = total_nutrients, total_meals = length user_meals\<rparr>))"

definition default_user :: string where
  "default_user = ''webhook_user''"

text \<open>The placeholder record of the default user, given its \<^verbatim>\<open>bmr\<close> and \<^verbatim>\<open>created_at\<close>.\<close>

definition webhook_user_rec :: "rat \<Rightarrow> datetime \<Rightarrow> user" where
  "webhook_user_rec b now =
     \<lparr>name = ''Webhook User'', age = 25, weight = float_lit 70, height = float_lit 170,
      gender = ''male'', goal = ''general'', uid = default_user, bmr = b, created_at = now\<rparr>"

text \<open>
  \<^verbatim>\<open>webhook_handler\<close>; \<open>now_user\<close>, \<open>ts\<close> and \<open>now\<close> are the three clock readings in
  the order the source takes them. The result is \<^verbatim>\<open>meal_id\<close>, \<^verbatim>\<open>meal_type\<close>,
  \<^verbatim>\<open>food_items\<close> and \<^verbatim>\<open>nutrients\<close>.
\<close>

definition webhook_handler ::
  "state \<Rightarrow> string \<Rightarrow> datetime \<Rightarrow> int \<Rightarrow> datetime
     \<Rightarrow> (error + string \<times> string \<times> string list \<times> nutrient_totals) \<times> state" where
  "webhook_handler s msg now_user ts now =
     (let message = py_strip msg
      in if \<not> startswith message ''log '' then (Inl InvalidFormatPrefix, s)
         else (case py_split1 CHR '':'' (drop 4 message) of
                 [p0, p1] \<Rightarrow>
                   (let mt = py_lower (py_strip p0);
                        food_items_str = py_strip p1
                    in if mt \<notin> set valid_meals then (Inl InvalidMealType, s)
                       else
                         (let fs = filter (\<lambda>i. i \<noteq> [])
                                     (map py_strip (py_split CHR '','' food_items_str))
                          in if fs = [] then (Inl NoFoodItems, s)
                             else
                               (case (if \<not> dict_in default_user (users s)
                                      then (case calculate_bmr (float_lit 70) (float_lit 170) 25 ''male'' of
                                              Inl e \<Rightarrow> Inl WebhookFailed
                                            | Inr b \<Rightarrow>
                                                Inr (dict_set default_user
                                                       (webhook_user_rec b now_user) (users s)))
                                      else Inr (users s)) of
                                  Inl e \<Rightarrow> (Inl e, s)
                                | Inr us \<Rightarrow>
                                    (let i = ''webhook_meal_'' @ str_nat (length (meals s) + 1)
                                               @ ''_'' @ str_int ts;
                                         n = calculate_nutrients fs
                                     in (Inr (i, mt, fs, n),
                                         \<lparr>users = us,
                                          meals = dict_set i
                                            \<lparr>mid = i, user_id = default_user, meal_type = mt,
                                             food_items = fs, logged_at = now, nutrients = n\<rparr>
                                            (meals s)\<rparr>)))))
               | _ \<Rightarrow> (Inl InvalidFormatParts, s)))"

subsection \<open>Sequences of requests\<close>

datatype request =
    Register user_registration int datetime
  | LogMeals meal_logging int datetime
  | Webhook string datetime int datetime

text \<open>The identifier a successful request issued, per collection.\<close>

datatype issued = NoId | UserId string | MealId string

fun step :: "state \<Rightarrow> request \<Rightarrow> issued \<times> state" where
  "step s (Register d ts now) =
     (case register_user s d ts now of
        (Inl e, s') \<Rightarrow> (NoId, s') | (Inr (i, b), s') \<Rightarrow> (UserId i, s'))"
| "step s (LogMeals d ts now) =
     (case log_meals s d ts now of
        (Inl e, s') \<Rightarrow> (NoId, s') | (Inr (i, n), s') \<Rightarrow> (MealId i, s'))"
| "step s (Webhook msg now_user ts now) =
     (case webhook_handler s msg now_user ts now of
        (Inl e, s') \<Rightarrow> (NoId, s') | (Inr (i, r), s') \<Rightarrow> (MealId i, s'))"

fun run :: "state \<Rightarrow> request list \<Rightarrow> issued list \<times> state" where
  "run s [] = ([], s)"
| "run s (r # rs) =
     (case step s r of (x, s') \<Rightarrow> (case run s' rs of (xs, s'') \<Rightarrow> (x # xs, s'')))"

fun user_ids :: "issued list \<Rightarrow> string list" where
  "user_ids [] = []"
| "user_ids (UserId i # xs) = i # user_ids xs"
| "user_ids (_ # xs) = user_ids xs"

fun meal_ids :: "issued list \<Rightarrow> string list" where
  "meal_ids [] = []"
| "meal_ids (MealId i # xs) = i # meal_ids xs"
| "meal_ids (_ # xs) = meal_ids xs"

subsection \<open>Auxiliary notions for the proofs\<close>

text \<open>
  A number is well formed when its float value is a binary64 value, that is, rounding
  leaves it unchanged. \<open>calories_of\<close> is the integer a name adds to the calorie total.
\<close>

fun wf_num :: "pynum \<Rightarrow> bool" where
  "wf_num (PInt a) = True"
| "wf_num (PFloat x) = (rnd x = x)"

definition wf_totals :: "nutrient_totals \<Rightarrow> bool" where
  "wf_totals t = (wf_num (calories t) \<and> wf_num (protein t) \<and> wf_num (carbs t) \<and> wf_num (fiber t))"

fun int_of :: "pynum \<Rightarrow> int" where
  "int_of (PInt a) = a"
| "int_of (PFloat x) = 0"

definition calories_of :: "string \<Rightarrow> int" where
  "calories_of x = (case map_of food_database (py_strip (py_lower x)) of
      None \<Rightarrow> 0 | Some n \<Rightarrow> int_of (calories n))"

text \<open>A clock reading for the examples: the start of 1970, \<open>ts = 0\<close>.\<close>

definition epoch :: datetime where
  "epoch = \<lparr>year = 1970, month = 1, day = 1, hour = 0, minute = 0, second = 0, microsecond = 0\<rparr>"

text \<open>\<^verbatim>\<open>c.join(ts)\<close>, used to state what \<^verbatim>\<open>split\<close> returns.\<close>

fun py_join :: "char \<Rightarrow> string list \<Rightarrow> string" where
  "py_join c [] = []"
| "py_join c [t] = t"
| "py_join c (t # u # ts) = t @ c # py_join c (u # ts)"

text \<open>
  The sequence number embedded in an identifier after a prefix of \<open>k\<close> characters, and the
  invariant of the two dictionaries: every key carries a sequence number not above the
  size of its dictionary (or is the default user), and every meal belongs to a stored user.
\<close>

definition nat_of_str :: "string \<Rightarrow> nat" where
  "nat_of_str s = foldl (\<lambda>a c. 10 * a + (of_char c - 48)) 0 s"

definition id_seq :: "nat \<Rightarrow> string \<Rightarrow> nat" where
  "id_seq k i = nat_of_str (takeWhile (\<lambda>c. c \<noteq> CHR ''_'') (drop k i))"

definition user_key_ok :: "nat \<Rightarrow> string \<Rightarrow> bool" where
  "user_key_ok n k = (k = default_user \<or> id_seq 5 k \<le> n)"

definition meal_key_ok :: "nat \<Rightarrow> string \<Rightarrow> bool" where
  "meal_key_ok n k = ((take 5 k = ''meal_'' \<and> id_seq 5 k \<le> n)
                      \<or> (take 13 k = ''webhook_meal_'' \<and> id_seq 13 k \<le> n))"

definition user_keys :: "state \<Rightarrow> string set" where
  "user_keys s = fst ` set (users s)"

definition meal_keys :: "state \<Rightarrow> string set" where
  "meal_keys s = fst ` set (meals s)"

definition inv :: "state \<Rightarrow> bool" where
  "inv s = ((\<forall>k \<in> user_keys s. user_key_ok (length (users s)) k)
          \<and> (\<forall>k \<in> meal_keys s. meal_key_ok (length (meals s)) k)
          \<and> (\<forall>m \<in> snd ` set (meals s). user_id m \<in> user_keys s))"

text \<open>
  \<^verbatim>\<open>date.isoformat()\<close>, the form YYYY-MM-DD of a calendar date, used to state which filter
  strings select a given day.
\<close>

definition digit_char :: "nat \<Rightarrow> char" where
  "digit_char k = char_of (48 + k)"

definition date_isoformat :: "nat \<times> nat \<times> nat \<Rightarrow> string" where
  "date_isoformat = (\<lambda>(y, m, d).
     [digit_char (y div 1000), digit_char (y div 100 mod 10), digit_char (y div 10 mod 10),
      digit_char (y mod 10), CHR ''-'', digit_char (m div 10), digit_char (m mod 10),
      CHR ''-'', digit_char (d div 10), digit_char (d mod 10)])"

text \<open>
  A state for the examples of the listing: two users and four meals, three of them of the
  first user, on 15 and 16 January 2024.
\<close>

definition on_day :: "nat \<Rightarrow> nat \<Rightarrow> datetime" where
  "on_day d h = \<lparr>year = 2024, month = 1, day = d, hour = h, minute = 30, second = 0, microsecond = 0\<rparr>"

definition example_user :: "string \<Rightarrow> user" where
  "example_user i = \<lparr>name = ''Test User'', age = 30, weight = float_lit 75, height = float_lit 175,
                      gender = ''male'', goal = ''weight loss'', uid = i, bmr = 1500,
                      created_at = epoch\<rparr>"

definition example_meal :: "string \<Rightarrow> string \<Rightarrow> datetime \<Rightarrow> meal_rec" where
  "example_meal i u t = \<lparr>mid = i, user_id = u, meal_type = ''lunch'', food_items = [''rice''],
                          logged_at = t, nutrients = calculate_nutrients [''rice'']\<rparr>"

definition example_state :: state where
  "example_state =
     \<lparr>users = [(''alice'', example_user ''alice''), (''bob'', example_user ''bob'')],
      meals = [(''m1'', example_meal ''m1'' ''alice'' (on_day 15 8)),
               (''m2'', example_meal ''m2'' ''bob'' (on_day 15 9)),
               (''m3'', example_meal ''m3'' ''alice'' (on_day 16 8)),
               (''m4'', example_meal ''m4'' ''alice'' (on_day 15 20))]\<rparr>"

section \<open>Properties\<close>

subsection \<open>Rounding to binary64 is idempotent\<close>

lemma pow2_powi: "pow2 k = 2 powi k"
  by (simp add: pow2_def power_int_def field_simps)

lemma pow2_pos [simp]: "0 < pow2 k"
  by (simp add: pow2_powi)

lemma pow2_add: "pow2 (a + b) = pow2 a * pow2 b"
  by (simp add: pow2_powi power_int_add)

lemma pow2_diff: "pow2 (a - b) = pow2 a / pow2 b"
  by (simp add: pow2_powi power_int_diff)

lemma pow2_strict_mono: "a < b \<Longrightarrow> pow2 a < pow2 b"
  by (simp add: pow2_powi power_int_strict_increasing)

lemma pow2_mono: "a \<le> b \<Longrightarrow> pow2 a \<le> pow2 b"
  by (simp add: pow2_powi power_int_increasing)

lemma pow2_less_iff [simp]: "pow2 a < pow2 b \<longleftrightarrow> a < b"
  by (metis pow2_mono pow2_strict_mono not_le)

lemma pow2_le_iff [simp]: "pow2 a \<le> pow2 b \<longleftrightarrow> a \<le> b"
  by (metis pow2_mono pow2_strict_mono not_le)

lemma of_int_pow2: "0 \<le> k \<Longrightarrow> rat_of_int (2 ^ nat k) = pow2 k"
  by (simp add: pow2_def)

lemma pow2_nat: "0 \<le> k \<Longrightarrow> pow2 k = 2 ^ nat k"
  by (simp add: pow2_def)

lemma fexp_unique:
  assumes "pow2 a \<le> x" "x < pow2 (a + 1)" "pow2 b \<le> x" "x < pow2 (b + 1)"
  shows "a = b"
proof -
  have "pow2 a < pow2 (b + 1)" using assms by linarith
  moreover have "pow2 b < pow2 (a + 1)" using assms by linarith
  ultimately show ?thesis by simp
qed

lemma fexp_bounds:
  assumes "0 < x"
  shows "pow2 (fexp x) \<le> x \<and> x < pow2 (fexp x + 1)"
proof -
  obtain p q where pq: "quotient_of x = (p, q)" by (cases "quotient_of x")
  have q: "0 < q" using pq by (rule quotient_of_denom_pos)
  have x: "x = of_int p / of_int q" using pq by (rule quotient_of_div)
  have p: "0 < p" using assms q x by (simp add: zero_less_divide_iff)
  let ?bp = "bitlen p" and ?bq = "bitlen q"
  have bp1: "1 \<le> ?bp" using p bitlen_eq_zero_iff[of p] bitlen_nonneg[of p] by linarith
  have bq1: "1 \<le> ?bq" using q bitlen_eq_zero_iff[of q] bitlen_nonneg[of q] by linarith
  have "rat_of_int (2 ^ nat (?bp - 1)) \<le> of_int p" "rat_of_int p < of_int (2 ^ nat ?bp)"
    using bitlen_bounds[OF p] by (simp_all only: of_int_le_iff of_int_less_iff)
  then have P: "pow2 (?bp - 1) \<le> of_int p" "of_int p < pow2 ?bp"
    using bp1 by (simp_all only: of_int_pow2)
  have "rat_of_int (2 ^ nat (?bq - 1)) \<le> of_int q" "rat_of_int q < of_int (2 ^ nat ?bq)"
    using bitlen_bounds[OF q] by (simp_all only: of_int_le_iff of_int_less_iff)
  then have Q: "pow2 (?bq - 1) \<le> of_int q" "of_int q < pow2 ?bq"
    using bq1 by (simp_all only: of_int_pow2)
  have qpos: "(0::rat) < of_int q" using q by simp
  have up: "x < pow2 (?bp - ?bq + 1)"
  proof -
    have "x < pow2 ?bp / of_int q" unfolding x using P(2) qpos by (intro divide_strict_right_mono)
    also have "\<dots> \<le> pow2 ?bp / pow2 (?bq - 1)" using Q(1) by (intro frac_le) (simp_all add: less_imp_le)
    also have "\<dots> = pow2 (?bp - ?bq + 1)" by (simp flip: pow2_diff add: algebra_simps)
    finally show ?thesis .
  qed
  have lo: "pow2 (?bp - ?bq - 1) \<le> x"
  proof -
    have "pow2 (?bp - ?bq - 1) = pow2 (?bp - 1) / pow2 ?bq" by (simp flip: pow2_diff add: algebra_simps)
    also have "\<dots> \<le> of_int p / pow2 ?bq" using P(1) by (intro divide_right_mono) (simp_all add: less_imp_le)
    also have "\<dots> \<le> of_int p / of_int q" using Q(2) qpos p by (intro frac_le) (simp_all add: less_imp_le)
    finally show ?thesis unfolding x .
  qed
  show ?thesis
    using up lo by (auto simp: fexp_def pq Let_def)
qed

lemma fexp_eq:
  assumes "pow2 e \<le> x" "x < pow2 (e + 1)"
  shows "fexp x = e"
proof -
  have "0 < x" using assms(1) pow2_pos[of e] by linarith
  from fexp_bounds[OF this] assms show ?thesis
    using fexp_unique by blast
qed

lemma round_half_even_of_int [simp]: "round_half_even (of_int n) = n"
  by (simp add: round_half_even_def)

lemma round_half_even_cases:
  "round_half_even x = \<lfloor>x\<rfloor> \<or> (round_half_even x = \<lfloor>x\<rfloor> + 1 \<and> x \<noteq> of_int \<lfloor>x\<rfloor>)"
  by (auto simp: round_half_even_def Let_def)

lemma round_half_even_ge: "of_int a \<le> x \<Longrightarrow> a \<le> round_half_even x"
  using round_half_even_cases[of x] by (auto simp: le_floor_iff) (simp add: le_floor_iff add_increasing2)

lemma round_half_even_le: "x \<le> of_int b \<Longrightarrow> round_half_even x \<le> b"
proof -
  assume h: "x \<le> of_int b"
  then have fb: "\<lfloor>x\<rfloor> \<le> b" by (simp add: floor_le_iff) 
  show ?thesis
  proof (cases "x = of_int \<lfloor>x\<rfloor>")
    case True
    then show ?thesis using round_half_even_cases[of x] fb by auto
  next
    case False
    have "\<lfloor>x\<rfloor> \<noteq> b" using False h by (metis of_int_floor_le order_antisym)
    then show ?thesis using round_half_even_cases[of x] fb by auto
  qed
qed

lemma pow2_nonzero [simp]: "pow2 k \<noteq> 0"
  using pow2_pos[of k] by linarith

lemma abs_pow2 [simp]: "\<bar>pow2 k\<bar> = pow2 k"
  by (simp add: abs_of_pos)

lemma pow2_54: "pow2 54 = 18014398509481984" by (simp add: pow2_def)
lemma pow2_52: "pow2 52 = 4503599627370496" by (simp add: pow2_def)
lemma pow2_53: "pow2 53 = 9007199254740992" by (simp add: pow2_def)

lemma rnd_scaled_bounds:
  assumes "x \<noteq> 0"
  defines "k \<equiv> fexp \<bar>x\<bar> - 52"
  shows "4503599627370496 \<le> \<bar>x\<bar> / pow2 k" "\<bar>x\<bar> / pow2 k < 9007199254740992"
proof -
  have pos: "0 < \<bar>x\<bar>" using assms by simp
  have b: "pow2 (k + 52) \<le> \<bar>x\<bar>" "\<bar>x\<bar> < pow2 (k + 53)"
    using fexp_bounds[OF pos] by (simp_all add: k_def algebra_simps)
  show "4503599627370496 \<le> \<bar>x\<bar> / pow2 k"
    using b(1) by (simp add: pow2_add pow2_52 pos_le_divide_eq mult.commute)
  show "\<bar>x\<bar> / pow2 k < 9007199254740992"
    using b(2) by (simp add: pow2_add pow2_53 pos_divide_less_eq mult.commute)
qed

lemma rnd_mantissa:
  assumes "x \<noteq> 0"
  shows "4503599627370496 \<le> \<bar>round_half_even (x / pow2 (fexp \<bar>x\<bar> - 52))\<bar>
       \<and> \<bar>round_half_even (x / pow2 (fexp \<bar>x\<bar> - 52))\<bar> \<le> 9007199254740992"
proof -
  let ?k = "fexp \<bar>x\<bar> - 52"
  let ?q = "x / pow2 ?k"
  note B = rnd_scaled_bounds[OF assms]
  show ?thesis
  proof (cases "0 < x")
    case True
    then have "rat_of_int 4503599627370496 \<le> ?q" "?q \<le> rat_of_int 9007199254740992"
      using B by simp_all
    then have "4503599627370496 \<le> round_half_even ?q" "round_half_even ?q \<le> 9007199254740992"
      using round_half_even_ge[of 4503599627370496 ?q] round_half_even_le[of ?q 9007199254740992]
      by blast+
    then show ?thesis by simp
  next
    case False
    then have "x < 0" using assms by simp
    then have "\<bar>x\<bar> / pow2 ?k = - ?q" by simp
    then have "?q \<le> rat_of_int (- 4503599627370496)" "rat_of_int (- 9007199254740992) \<le> ?q"
      using B by simp_all
    then have "round_half_even ?q \<le> - 4503599627370496" "- 9007199254740992 \<le> round_half_even ?q"
      using round_half_even_le[of ?q "- 4503599627370496"] round_half_even_ge[of "- 9007199254740992" ?q]
      by blast+
    then show ?thesis by simp
  qed
qed

lemma rnd_scaled_int:
  fixes M :: int
  assumes "4503599627370496 \<le> \<bar>M\<bar>" "\<bar>M\<bar> \<le> 9007199254740992"
  shows "rnd (of_int M * pow2 k) = of_int M * pow2 k"
proof -
  let ?y = "rat_of_int M * pow2 k"
  have M0: "M \<noteq> 0" using assms by auto
  have p0: "pow2 k \<noteq> 0" using pow2_pos[of k] by linarith
  have y0: "?y \<noteq> 0" using M0 p0 by simp
  have absy: "\<bar>?y\<bar> = rat_of_int \<bar>M\<bar> * pow2 k"
    using pow2_pos[of k] by (simp add: abs_mult)
  show ?thesis
  proof (cases "\<bar>M\<bar> = 9007199254740992")
    case False
    then have lt: "\<bar>M\<bar> < 9007199254740992" using assms by simp
    have "rat_of_int 4503599627370496 \<le> of_int \<bar>M\<bar>" "rat_of_int \<bar>M\<bar> < of_int 9007199254740992"
      using assms(1) lt by (simp_all only: of_int_le_iff of_int_less_iff)
    then have "pow2 (k + 52) \<le> \<bar>?y\<bar>" "\<bar>?y\<bar> < pow2 (k + 52 + 1)"
      unfolding absy using pow2_pos[of k]
      by (simp_all add: pow2_add pow2_52 pow2_53 mult.commute)
    then have "fexp \<bar>?y\<bar> = k + 52" by (rule fexp_eq)
    then show ?thesis using y0 pow2_pos[of k] by (simp add: rnd_def)
  next
    case True
    then have "pow2 (k + 53) \<le> \<bar>?y\<bar>" "\<bar>?y\<bar> < pow2 (k + 53 + 1)"
      unfolding absy using pow2_pos[of k]
      by (simp_all add: pow2_add pow2_53 pow2_54 mult.commute)
    then have fe: "fexp \<bar>?y\<bar> = k + 53" by (rule fexp_eq)
    obtain H :: int where H: "M = 2 * H" using True by (cases "0 \<le> M") (auto intro: that[of 4503599627370496] that[of "- 4503599627370496"])
    have q: "?y / pow2 (k + 1) = rat_of_int H"
      by (simp add: pow2_add H pow2_def[of 1])
    have k': "fexp \<bar>?y\<bar> - 52 = k + 1" using fe by simp
    have "rnd ?y = of_int (round_half_even (?y / pow2 (k + 1))) * pow2 (k + 1)"
      unfolding rnd_def Let_def k' using y0 by (simp only: if_False)
    also have "\<dots> = rat_of_int H * pow2 (k + 1)"
      unfolding q by (simp only: round_half_even_of_int)
    also have "\<dots> = ?y"
      by (simp add: H pow2_add pow2_def[of 1])
    finally show ?thesis .
  qed
qed

lemma rnd_idem [simp]: "rnd (rnd x) = rnd x"
proof (cases "x = 0")
  case True
  then show ?thesis by (simp add: rnd_def)
next
  case False
  from rnd_mantissa[OF False] have
    "rnd (of_int (round_half_even (x / pow2 (fexp \<bar>x\<bar> - 52))) * pow2 (fexp \<bar>x\<bar> - 52))
      = of_int (round_half_even (x / pow2 (fexp \<bar>x\<bar> - 52))) * pow2 (fexp \<bar>x\<bar> - 52)"
    by (intro rnd_scaled_int) simp_all
  then show ?thesis using False by (simp add: rnd_def Let_def)
qed

subsection \<open>Nutrient aggregation\<close>

lemma nutrients_loop_skip:
  "map_of food_database (py_strip (py_lower x)) = None \<Longrightarrow>
   nutrients_loop t (xs @ x # ys) = nutrients_loop t (xs @ ys)"
  by (induction xs arbitrary: t) (simp_all add: Let_def split: option.splits)

text \<open>
  Claim C5. \<^verbatim>\<open>calculate_nutrients\<close> on the empty list returns the totals 0, 0, 0, 0, and a
  name whose lowercased and trimmed form is not a key of the food table is skipped: at
  any position of any list, the totals are those of the list without it. The function
  has no failure branch, so such a name cannot make it fail.
\<close>

theorem calculate_nutrients_empty_and_skip:
  "calculate_nutrients [] = \<lparr>calories = PInt 0, protein = PInt 0, carbs = PInt 0, fiber = PInt 0\<rparr>
   \<and> (map_of food_database (py_strip (py_lower x)) = None \<longrightarrow>
        calculate_nutrients (xs @ x # ys) = calculate_nutrients (xs @ ys))"
  by (simp add: calculate_nutrients_def zero_totals_def nutrients_loop_skip)

theorem calculate_nutrients_empty_and_skip_witness:
  "map_of food_database (py_strip (py_lower '' Pizza'')) = None
   \<and> calculate_nutrients ([''rice''] @ '' Pizza'' # [''dal'']) = calculate_nutrients ([''rice''] @ [''dal''])"
proof -
  have h: "map_of food_database (py_strip (py_lower '' Pizza'')) = None"
    by code_simp
  show ?thesis
    using h calculate_nutrients_empty_and_skip [of "'' Pizza''" "[''rice'']" "[''dal'']"] by blast
qed

lemma rnd_0 [simp]: "rnd 0 = 0"
  by (simp add: rnd_def)

lemma py_add_commute: "py_add x y = py_add y x"
  by (cases x; cases y) (simp_all add: fadd_def add.commute)

lemma wf_num_py_add [simp]: "wf_num (py_add x y)"
  by (cases x; cases y) (simp_all add: fadd_def)

lemma py_add_zero_left: "wf_num x \<Longrightarrow> py_add (PInt 0) x = x"
  by (cases x) (simp_all add: fadd_def float_of_int_def)

lemma wf_totals_add [simp]: "wf_totals (add_totals t n)"
  by (simp add: wf_totals_def add_totals_def)

lemma wf_totals_zero [simp]: "wf_totals zero_totals"
  by (simp add: wf_totals_def zero_totals_def)

lemma add_totals_zero_left: "wf_totals n \<Longrightarrow> add_totals zero_totals n = n"
  by (simp add: wf_totals_def add_totals_def zero_totals_def py_add_zero_left)

lemma add_totals_commute: "add_totals a b = add_totals b a"
  by (simp add: add_totals_def py_add_commute)

lemma food_database_wf:
  "map_of food_database k = Some n \<Longrightarrow> wf_totals n \<and> (\<exists>c. calories n = PInt c)"
  by (auto simp: food_database_def nt_def float_lit_def wf_totals_def split: if_splits)

lemma wf_nutrients_loop: "wf_totals t \<Longrightarrow> wf_totals (nutrients_loop t xs)"
  by (induction xs arbitrary: t) (simp_all add: Let_def split: option.splits)

lemma wf_calculate_nutrients [simp]: "wf_totals (calculate_nutrients xs)"
  by (simp add: calculate_nutrients_def wf_nutrients_loop)

lemma calories_nutrients_loop:
  "calories t = PInt c \<Longrightarrow>
   calories (nutrients_loop t xs) = PInt (c + sum_list (map calories_of xs))"
proof (induction xs arbitrary: t c)
  case Nil
  then show ?case by simp
next
  case (Cons x xs)
  show ?case
  proof (cases "map_of food_database (py_strip (py_lower x))")
    case None
    then show ?thesis using Cons by (simp add: calories_of_def)
  next
    case (Some n)
    then obtain d where d: "calories n = PInt d" using food_database_wf by blast
    have "calories (add_totals t n) = PInt (c + d)"
      using Cons.prems d by (simp add: add_totals_def)
    from Cons.IH[OF this] show ?thesis using Some d by (simp add: calories_of_def add.assoc)
  qed
qed

lemma calories_calculate_nutrients:
  "calories (calculate_nutrients xs) = PInt (sum_list (map calories_of xs))"
  using calories_nutrients_loop[of zero_totals 0 xs]
  by (simp add: calculate_nutrients_def zero_totals_def)

lemma sum_list_map_mset:
  "mset xs = mset ys \<Longrightarrow> sum_list (map f xs) = sum_list (map (f :: 'a \<Rightarrow> int) ys)"
  by (metis mset_map sum_mset_sum_list)

lemma calculate_nutrients_two:
  "calculate_nutrients [a, b] = calculate_nutrients [b, a]"
proof -
  have *: "add_totals (add_totals zero_totals n) m = add_totals (add_totals zero_totals m) n"
    if "wf_totals n" "wf_totals m" for n m
    using that by (simp add: add_totals_zero_left add_totals_commute)
  show ?thesis
    by (auto simp: calculate_nutrients_def Let_def * dest!: food_database_wf split: option.splits)
qed

text \<open>
  Claim C6, as stated, fails: float addition is not associative, so a permutation of
  three names can change a total. The lists rice, dal, bread and rice, bread, dal are
  permutations of each other, and their fiber totals are 10.600000000000001 and 10.6.
\<close>

theorem calculate_nutrients_order_counterexample:
  "mset [''rice'', ''dal'', ''bread''] = mset [''rice'', ''bread'', ''dal'']
   \<and> py_val (fiber (calculate_nutrients [''rice'', ''dal'', ''bread''])) = 1491817376566477 / 140737488355328
   \<and> py_val (fiber (calculate_nutrients [''rice'', ''bread'', ''dal''])) = 5967269506265907 / 562949953421312
   \<and> calculate_nutrients [''rice'', ''dal'', ''bread''] \<noteq> calculate_nutrients [''rice'', ''bread'', ''dal'']"
proof -
  have n: "py_strip (py_lower ''rice'') = ''rice''" "py_strip (py_lower ''dal'') = ''dal''"
    "py_strip (py_lower ''bread'') = ''bread''"
    by code_simp+
  have l: "fiber (the (map_of food_database ''rice'')) = PFloat (float_lit (4 / 10))"
    "fiber (the (map_of food_database ''dal'')) = PFloat (float_lit (75 / 10))"
    "fiber (the (map_of food_database ''bread'')) = PFloat (float_lit (27 / 10))"
    "map_of food_database ''rice'' \<noteq> None" "map_of food_database ''dal'' \<noteq> None"
    "map_of food_database ''bread'' \<noteq> None"
    by (simp_all add: food_database_def nt_def)
  have a0: "fiber (calculate_nutrients [''rice'', ''dal'', ''bread''])
      = py_add (py_add (py_add (PInt 0) (PFloat (float_lit (4 / 10)))) (PFloat (float_lit (75 / 10))))
          (PFloat (float_lit (27 / 10)))"
    using l by (auto simp: calculate_nutrients_def zero_totals_def add_totals_def n)
  have b0: "fiber (calculate_nutrients [''rice'', ''bread'', ''dal''])
      = py_add (py_add (py_add (PInt 0) (PFloat (float_lit (4 / 10)))) (PFloat (float_lit (27 / 10))))
          (PFloat (float_lit (75 / 10)))"
    using l by (auto simp: calculate_nutrients_def zero_totals_def add_totals_def n)
  have a1: "py_val (py_add (py_add (py_add (PInt 0) (PFloat (float_lit (4 / 10)))) (PFloat (float_lit (75 / 10))))
          (PFloat (float_lit (27 / 10)))) = 1491817376566477 / 140737488355328"
    by code_simp
  have b1: "py_val (py_add (py_add (py_add (PInt 0) (PFloat (float_lit (4 / 10)))) (PFloat (float_lit (27 / 10))))
          (PFloat (float_lit (75 / 10)))) = 5967269506265907 / 562949953421312"
    by code_simp
  have a: "py_val (fiber (calculate_nutrients [''rice'', ''dal'', ''bread''])) = 1491817376566477 / 140737488355328"
    by (simp only: a0 a1)
  have b: "py_val (fiber (calculate_nutrients [''rice'', ''bread'', ''dal''])) = 5967269506265907 / 562949953421312"
    by (simp only: b0 b1)
  have c: "(1491817376566477 / 140737488355328 :: rat) \<noteq> 5967269506265907 / 562949953421312"
    by simp
  have "calculate_nutrients [''rice'', ''dal'', ''bread''] \<noteq> calculate_nutrients [''rice'', ''bread'', ''dal'']"
    using a b c by metis
  moreover have "mset [''rice'', ''dal'', ''bread''] = mset [''rice'', ''bread'', ''dal'']"
    by (simp add: add_mset_commute)
  ultimately show ?thesis using a b by blast
qed

text \<open>
  Claim C6, amended. For every list of food names and every permutation of it, the
  calorie totals are equal (every calorie entry of the table is an integer, and integers
  are added exactly); and swapping the two names of a two-element list leaves all four
  totals unchanged, in particular for rice, chicken and chicken, rice.
\<close>

theorem calculate_nutrients_order:
  "(mset xs = mset ys \<longrightarrow> calories (calculate_nutrients xs) = calories (calculate_nutrients ys))
   \<and> calculate_nutrients [a, b] = calculate_nutrients [b, a]"
  by (auto simp: calories_calculate_nutrients calculate_nutrients_two dest: sum_list_map_mset)

theorem calculate_nutrients_order_witness:
  "mset [''rice'', ''dal'', ''bread''] = mset [''rice'', ''bread'', ''dal'']
   \<and> calories (calculate_nutrients [''rice'', ''dal'', ''bread''])
       = calories (calculate_nutrients [''rice'', ''bread'', ''dal''])
   \<and> calculate_nutrients [''rice'', ''chicken''] = calculate_nutrients [''chicken'', ''rice'']"
proof -
  have h: "mset [''rice'', ''dal'', ''bread''] = mset [''rice'', ''bread'', ''dal'']"
    by (simp add: add_mset_commute)
  show ?thesis
    using h calculate_nutrients_order [of "[''rice'', ''dal'', ''bread'']" "[''rice'', ''bread'', ''dal'']" "''rice''" "''chicken''"]
    by blast
qed

subsection \<open>BMR calculation\<close>

lemma py_lower_male: "py_lower ''male'' = ''male''"
  by code_simp




text \<open>
  Claim C8, as stated, fails: the gender is lowercased before it is compared, so
  "MALE", which is neither "male" nor "female", gets the BMR of a man (1700.06 for
  70 kg, 170 cm, 25 years) instead of the failure.
\<close>

theorem calculate_bmr_uppercase_gender_counterexample:
  "''MALE'' \<noteq> ''male'' \<and> ''MALE'' \<noteq> ''female''
   \<and> calculate_bmr (float_lit 70) (float_lit 170) 25 ''MALE'' = Inr (float_lit (170006 / 100))"
  by code_simp

text \<open>
  Claim C8, amended. For every gender whose lowercase form is neither "male" nor
  "female", \<^verbatim>\<open>calculate_bmr\<close> fails with \<open>InvalidGender\<close>. The result depends on the four
  arguments only: the function reads and writes no state.
\<close>

theorem calculate_bmr_invalid_gender:
  "py_lower g \<noteq> ''male'' \<Longrightarrow> py_lower g \<noteq> ''female'' \<Longrightarrow> calculate_bmr w h a g = Inl InvalidGender"
  by (simp add: calculate_bmr_def)

theorem calculate_bmr_invalid_gender_witness:
  "py_lower ''invalid'' \<noteq> ''male'' \<and> py_lower ''invalid'' \<noteq> ''female''
   \<and> calculate_bmr (float_lit 70) (float_lit 170) 25 ''invalid'' = Inl InvalidGender"
proof -
  have h1: "py_lower ''invalid'' \<noteq> ''male''" by code_simp
  have h2: "py_lower ''invalid'' \<noteq> ''female''" by code_simp
  show ?thesis
    using h1 h2 calculate_bmr_invalid_gender [OF h1 h2] by blast
qed

subsection \<open>The webhook command parser\<close>

lemma py_split_nonempty [simp]: "py_split c s \<noteq> []"
  by (induction s) (auto split: list.splits)

lemma py_split_no_sep: "c \<notin> set b \<Longrightarrow> py_split c b = [b]"
  by (induction b) (auto split: list.splits)

lemma py_split_append_tail:
  "c \<notin> set b \<Longrightarrow> py_split c (s @ b) = butlast (py_split c s) @ [last (py_split c s) @ b]"
proof (induction s)
  case Nil
  then show ?case by (simp add: py_split_no_sep)
next
  case (Cons x s)
  then show ?case
    by (cases "py_split c s") (auto split: list.splits)
qed

lemma py_strip_ws_prefix:
  "\<forall>x\<in>set a. py_isspace x \<Longrightarrow> py_strip (a @ t) = py_strip t"
  by (simp add: py_strip_def dropWhile_append2)

lemma py_strip_ws_suffix:
  assumes "\<forall>x\<in>set b. py_isspace x"
  shows "py_strip (t @ b) = py_strip t"
proof (cases "\<forall>x\<in>set t. py_isspace x")
  case True
  then have e: "dropWhile py_isspace (t @ b) = []" "dropWhile py_isspace t = []"
    using assms by (auto simp: dropWhile_eq_Nil_conv)
  show ?thesis unfolding py_strip_def e ..
next
  case False
  then obtain x where x: "x \<in> set t" "\<not> py_isspace x" by blast
  have d: "dropWhile py_isspace (t @ b) = dropWhile py_isspace t @ b"
    using x by (rule dropWhile_append1)
  have "dropWhile py_isspace (rev b @ rev (dropWhile py_isspace t))
        = dropWhile py_isspace (rev (dropWhile py_isspace t))"
    by (rule dropWhile_append2) (use assms in auto)
  then show ?thesis
    by (simp add: py_strip_def d)
qed

lemma map_strip_split_prefix:
  "\<not> py_isspace c \<Longrightarrow> \<forall>x\<in>set a. py_isspace x \<Longrightarrow>
   map py_strip (py_split c (a @ s)) = map py_strip (py_split c s)"
proof (induction a)
  case Nil
  then show ?case by simp
next
  case (Cons x a)
  then have xc: "x \<noteq> c" and wx: "py_isspace x" by auto
  obtain t ts where sp: "py_split c (a @ s) = t # ts"
    by (cases "py_split c (a @ s)") auto
  have "py_strip (x # t) = py_strip t"
    using py_strip_ws_prefix[of "[x]" t] wx by simp
  then show ?case using Cons xc sp by auto
qed

lemma map_strip_split_suffix:
  assumes "\<not> py_isspace c" "\<forall>x\<in>set b. py_isspace x"
  shows "map py_strip (py_split c (s @ b)) = map py_strip (py_split c s)"
proof -
  have cb: "c \<notin> set b" using assms by auto
  let ?S = "py_split c s"
  have "map py_strip (py_split c (s @ b)) = map py_strip (butlast ?S) @ [py_strip (last ?S @ b)]"
    by (simp add: py_split_append_tail[OF cb])
  also have "\<dots> = map py_strip (butlast ?S) @ [py_strip (last ?S)]"
    by (simp add: py_strip_ws_suffix[OF assms(2)])
  also have "\<dots> = map py_strip (butlast ?S @ [last ?S])"
    by (simp only: map_append list.map)
  also have "\<dots> = map py_strip ?S"
    by (simp only: append_butlast_last_id[OF py_split_nonempty])
  finally show ?thesis .
qed

lemma py_strip_decomp:
  "\<exists>a b. s = a @ py_strip s @ b \<and> (\<forall>x\<in>set a. py_isspace x) \<and> (\<forall>x\<in>set b. py_isspace x)"
proof -
  let ?u = "dropWhile py_isspace s"
  let ?a = "takeWhile py_isspace s"
  let ?b = "rev (takeWhile py_isspace (rev ?u))"
  have "rev (takeWhile py_isspace (rev ?u) @ dropWhile py_isspace (rev ?u)) = rev (rev ?u)"
    by (simp only: takeWhile_dropWhile_id)
  then have "rev (dropWhile py_isspace (rev ?u)) @ ?b = ?u"
    by (simp only: rev_append rev_rev_ident)
  then have u: "?u = py_strip s @ ?b" by (simp only: py_strip_def)
  have "s = ?a @ ?u" by simp
  then have "s = ?a @ py_strip s @ ?b" using u by simp
  moreover have "\<forall>x\<in>set ?a. py_isspace x" by (auto dest: set_takeWhileD)
  moreover have "\<forall>x\<in>set ?b. py_isspace x" by (auto dest: set_takeWhileD)
  ultimately show ?thesis by blast
qed

lemma map_strip_split_strip:
  assumes "\<not> py_isspace c"
  shows "map py_strip (py_split c (py_strip s)) = map py_strip (py_split c s)"
proof -
  obtain a b where d: "s = a @ py_strip s @ b"
    and a: "\<forall>x\<in>set a. py_isspace x" and b: "\<forall>x\<in>set b. py_isspace x"
    using py_strip_decomp by blast
  have "map py_strip (py_split c s) = map py_strip (py_split c (a @ (py_strip s @ b)))"
    using d by simp
  also have "\<dots> = map py_strip (py_split c (py_strip s @ b))"
    using assms a by (rule map_strip_split_prefix)
  also have "\<dots> = map py_strip (py_split c (py_strip s))"
    using assms b by (rule map_strip_split_suffix)
  finally show ?thesis by simp
qed

lemma comma_not_space: "\<not> py_isspace CHR '',''"
  by code_simp

lemma calculate_bmr_male_ok: "\<exists>b. calculate_bmr w h a ''male'' = Inr b"
  by (simp add: calculate_bmr_def py_lower_male)

lemma webhook_handler_fst:
  "fst (webhook_handler s msg now_user ts now) =
     (if \<not> startswith (py_strip msg) ''log '' then Inl InvalidFormatPrefix
      else if CHR '':'' \<notin> set (drop 4 (py_strip msg)) then Inl InvalidFormatParts
      else if py_lower (py_strip (takeWhile (\<lambda>x. x \<noteq> CHR '':'') (drop 4 (py_strip msg)))) \<notin> set valid_meals
           then Inl InvalidMealType
      else if filter (\<lambda>i. i \<noteq> []) (map py_strip (py_split CHR '','' (py_strip
                (tl (dropWhile (\<lambda>x. x \<noteq> CHR '':'') (drop 4 (py_strip msg))))))) = []
           then Inl NoFoodItems
      else Inr (''webhook_meal_'' @ str_nat (length (meals s) + 1) @ ''_'' @ str_int ts,
                py_lower (py_strip (takeWhile (\<lambda>x. x \<noteq> CHR '':'') (drop 4 (py_strip msg)))),
                filter (\<lambda>i. i \<noteq> []) (map py_strip (py_split CHR '','' (py_strip
                  (tl (dropWhile (\<lambda>x. x \<noteq> CHR '':'') (drop 4 (py_strip msg))))))),
                calculate_nutrients (filter (\<lambda>i. i \<noteq> []) (map py_strip (py_split CHR '','' (py_strip
                  (tl (dropWhile (\<lambda>x. x \<noteq> CHR '':'') (drop 4 (py_strip msg))))))))))"
proof -
  obtain b where b: "calculate_bmr (float_lit 70) (float_lit 170) 25 ''male'' = Inr b"
    using calculate_bmr_male_ok by blast
  show ?thesis
    by (simp add: webhook_handler_def py_split1_def Let_def b)
qed

text \<open>
  Claim C3, as stated, fails: the parser only checks that the remainder splits into two
  parts at the first colon, not that the parts are non-empty. "log :rice" has an empty
  left part and fails with \<open>InvalidMealType\<close>; "log lunch:" has an empty right part and
  fails with \<open>NoFoodItems\<close>. Neither is an \<open>InvalidFormat\<close> failure.
\<close>

theorem webhook_empty_part_counterexample:
  "py_split1 CHR '':'' (drop 4 (py_strip ''log :rice'')) = ['''', ''rice'']
   \<and> fst (webhook_handler init ''log :rice'' epoch 0 epoch) = Inl InvalidMealType
   \<and> py_split1 CHR '':'' (drop 4 (py_strip ''log lunch:'')) = [''lunch'', '''']
   \<and> fst (webhook_handler init ''log lunch:'' epoch 0 epoch) = Inl NoFoodItems"
proof -
  have a: "py_split1 CHR '':'' (drop 4 (py_strip ''log :rice'')) = ['''', ''rice'']"
    by code_simp
  have b: "py_split1 CHR '':'' (drop 4 (py_strip ''log lunch:'')) = [''lunch'', '''']"
    by code_simp
  have c: "startswith (py_strip ''log :rice'') ''log ''" "startswith (py_strip ''log lunch:'') ''log ''"
    "CHR '':'' \<in> set (drop 4 (py_strip ''log :rice''))" "CHR '':'' \<in> set (drop 4 (py_strip ''log lunch:''))"
    "py_lower (py_strip (takeWhile (\<lambda>x. x \<noteq> CHR '':'') (drop 4 (py_strip ''log :rice'')))) \<notin> set valid_meals"
    "py_lower (py_strip (takeWhile (\<lambda>x. x \<noteq> CHR '':'') (drop 4 (py_strip ''log lunch:'')))) \<in> set valid_meals"
    "filter (\<lambda>i. i \<noteq> []) (map py_strip (py_split CHR '','' (py_strip
                (tl (dropWhile (\<lambda>x. x \<noteq> CHR '':'') (drop 4 (py_strip ''log lunch:''))))))) = []"
    by code_simp+
  show ?thesis
    using a b c by (simp add: webhook_handler_fst)
qed

text \<open>
  Claim C3, amended. The webhook parser fails with \<open>InvalidFormat\<close> if and only if the
  message, trimmed of surrounding whitespace, does not start with "log ", or the
  remainder after the prefix contains no colon.
\<close>

theorem webhook_invalid_format:
  "is_InvalidFormat (fst (webhook_handler s msg now_user ts now)) \<longleftrightarrow>
     (\<not> startswith (py_strip msg) ''log '' \<or> CHR '':'' \<notin> set (drop 4 (py_strip msg)))"
  by (simp add: webhook_handler_fst)

theorem webhook_invalid_format_witness:
  "\<not> startswith (py_strip ''invalid message format'') ''log ''
   \<and> is_InvalidFormat (fst (webhook_handler init ''invalid message format'' epoch 0 epoch))
   \<and> startswith (py_strip '' log lunch'') ''log '' \<and> CHR '':'' \<notin> set (drop 4 (py_strip '' log lunch''))
   \<and> is_InvalidFormat (fst (webhook_handler init '' log lunch'' epoch 0 epoch))"
proof -
  have a: "\<not> startswith (py_strip ''invalid message format'') ''log ''" by code_simp
  have b: "startswith (py_strip '' log lunch'') ''log ''" by code_simp
  have c: "CHR '':'' \<notin> set (drop 4 (py_strip '' log lunch''))" by code_simp
  show ?thesis
    using a b c webhook_invalid_format [of init "''invalid message format''" epoch 0 epoch]
      webhook_invalid_format [of init "'' log lunch''" epoch 0 epoch]
    by blast
qed

lemma py_join_split: "py_join c (py_split c s) = s"
proof (induction s)
  case Nil
  then show ?case by simp
next
  case (Cons x s)
  obtain t ts where sp: "py_split c s = t # ts"
    by (cases "py_split c s") (use py_split_nonempty in auto)
  show ?case
  proof (cases ts)
    case Nil
    then show ?thesis using Cons sp by auto
  next
    case (Cons u us)
    then show ?thesis using Cons.IH sp by auto
  qed
qed

lemma py_split_tokens_no_sep: "t \<in> set (py_split c s) \<Longrightarrow> c \<notin> set t"
proof (induction s arbitrary: t)
  case Nil
  then show ?case by simp
next
  case (Cons x s)
  obtain u us where sp: "py_split c s = u # us"
    by (cases "py_split c s") (use py_split_nonempty in auto)
  show ?case using Cons sp by (auto split: if_splits)
qed

lemma last_dropWhile: "dropWhile P xs \<noteq> [] \<Longrightarrow> last (dropWhile P xs) = last xs"
  by (induction xs) (auto split: if_splits)

lemma py_strip_ends:
  assumes "py_strip t \<noteq> []"
  shows "\<not> py_isspace (hd (py_strip t)) \<and> \<not> py_isspace (last (py_strip t))"
proof -
  let ?u = "dropWhile py_isspace t"
  let ?X = "dropWhile py_isspace (rev ?u)"
  have X: "?X \<noteq> []" using assms by (simp add: py_strip_def)
  have u: "?u \<noteq> []"
  proof
    assume "?u = []"
    then have "?X = []" by (simp only: rev.simps(1) dropWhile.simps(1))
    with X show False by blast
  qed
  have "last (py_strip t) = hd ?X" using X by (simp add: py_strip_def last_rev)
  moreover have "\<not> py_isspace (hd ?X)" using X by (rule hd_dropWhile)
  moreover have "hd (py_strip t) = last ?X" using X by (simp add: py_strip_def hd_rev)
  moreover have "last ?X = last (rev ?u)" using X by (rule last_dropWhile)
  moreover have "last (rev ?u) = hd ?u" using u by (simp add: last_rev)
  moreover have "\<not> py_isspace (hd ?u)" using u by (rule hd_dropWhile)
  ultimately show ?thesis by simp
qed

text \<open>
  Claim C4. For a message that passes the prefix, colon and meal-type checks, with
  \<open>l\<close> and \<open>r\<close> the parts left and right of the first colon: the right part is split on
  commas, each token is trimmed, empty tokens are dropped; the handler fails with
  \<open>NoFoodItems\<close> exactly when no token remains, and otherwise returns the remaining tokens
  in split order. Splitting on commas means that the tokens contain no comma and joined by
  commas give the right part back; trimming a token means removing whitespace at its two
  ends and nothing else, so that casing and inner spacing are kept and a non-empty result
  neither starts nor ends with whitespace.
\<close>

theorem webhook_food_items:
  assumes "py_strip msg = ''log '' @ l @ CHR '':'' # r"
    and "CHR '':'' \<notin> set l"
    and "py_lower (py_strip l) \<in> set valid_meals"
  shows "(fst (webhook_handler s msg now_user ts now) = Inl NoFoodItems
            \<longleftrightarrow> filter (\<lambda>t. t \<noteq> []) (map py_strip (py_split CHR '','' r)) = [])
       \<and> (filter (\<lambda>t. t \<noteq> []) (map py_strip (py_split CHR '','' r)) \<noteq> [] \<longrightarrow>
            fst (webhook_handler s msg now_user ts now) =
              Inr (''webhook_meal_'' @ str_nat (length (meals s) + 1) @ ''_'' @ str_int ts,
                   py_lower (py_strip l),
                   filter (\<lambda>t. t \<noteq> []) (map py_strip (py_split CHR '','' r)),
                   calculate_nutrients (filter (\<lambda>t. t \<noteq> []) (map py_strip (py_split CHR '','' r)))))
       \<and> py_join CHR '','' (py_split CHR '','' r) = r
       \<and> (\<forall>t \<in> set (py_split CHR '','' r). CHR '','' \<notin> set t)
       \<and> (\<forall>t. \<exists>a b. t = a @ py_strip t @ b
                    \<and> (\<forall>c \<in> set a. py_isspace c) \<and> (\<forall>c \<in> set b. py_isspace c)
                    \<and> (py_strip t \<noteq> [] \<longrightarrow>
                          \<not> py_isspace (hd (py_strip t)) \<and> \<not> py_isspace (last (py_strip t))))"
proof -
  have sw: "startswith (py_strip msg) ''log ''"
    by (simp add: assms(1) startswith_def)
  have rest: "drop 4 (py_strip msg) = l @ CHR '':'' # r"
    by (simp add: assms(1))
  have "takeWhile (\<lambda>x. x \<noteq> CHR '':'') (l @ CHR '':'' # r)
          = l @ takeWhile (\<lambda>x. x \<noteq> CHR '':'') (CHR '':'' # r)"
    by (rule takeWhile_append2) (use assms(2) in auto)
  then have tw: "takeWhile (\<lambda>x. x \<noteq> CHR '':'') (l @ CHR '':'' # r) = l"
    by simp
  have "dropWhile (\<lambda>x. x \<noteq> CHR '':'') (l @ CHR '':'' # r)
          = dropWhile (\<lambda>x. x \<noteq> CHR '':'') (CHR '':'' # r)"
    by (rule dropWhile_append2) (use assms(2) in auto)
  then have dw: "tl (dropWhile (\<lambda>x. x \<noteq> CHR '':'') (l @ CHR '':'' # r)) = r"
    by simp
  have st: "map py_strip (py_split CHR '','' (py_strip r)) = map py_strip (py_split CHR '','' r)"
    using comma_not_space by (rule map_strip_split_strip)
  have A: "(fst (webhook_handler s msg now_user ts now) = Inl NoFoodItems
            \<longleftrightarrow> filter (\<lambda>t. t \<noteq> []) (map py_strip (py_split CHR '','' r)) = [])
       \<and> (filter (\<lambda>t. t \<noteq> []) (map py_strip (py_split CHR '','' r)) \<noteq> [] \<longrightarrow>
            fst (webhook_handler s msg now_user ts now) =
              Inr (''webhook_meal_'' @ str_nat (length (meals s) + 1) @ ''_'' @ str_int ts,
                   py_lower (py_strip l),
                   filter (\<lambda>t. t \<noteq> []) (map py_strip (py_split CHR '','' r)),
                   calculate_nutrients (filter (\<lambda>t. t \<noteq> []) (map py_strip (py_split CHR '','' r)))))"
    using assms(3) by (simp add: webhook_handler_fst sw rest tw dw st)
  have B: "py_join CHR '','' (py_split CHR '','' r) = r"
    by (rule py_join_split)
  have C: "\<forall>t \<in> set (py_split CHR '','' r). CHR '','' \<notin> set t"
    using py_split_tokens_no_sep by blast
  have D: "\<forall>t. \<exists>a b. t = a @ py_strip t @ b
                    \<and> (\<forall>c \<in> set a. py_isspace c) \<and> (\<forall>c \<in> set b. py_isspace c)
                    \<and> (py_strip t \<noteq> [] \<longrightarrow>
                          \<not> py_isspace (hd (py_strip t)) \<and> \<not> py_isspace (last (py_strip t)))"
    using py_strip_decomp py_strip_ends by meson
  show ?thesis using A B C D by blast
qed

theorem webhook_food_items_witness:
  "py_strip ''  log breakfast: Brown  Bread , milk,, ,banana ''
      = ''log '' @ ''breakfast'' @ CHR '':'' # '' Brown  Bread , milk,, ,banana''
   \<and> CHR '':'' \<notin> set ''breakfast''
   \<and> py_lower (py_strip ''breakfast'') \<in> set valid_meals
   \<and> py_split CHR '','' '' Brown  Bread , milk,, ,banana''
        = ['' Brown  Bread '', '' milk'', '''', '' '', ''banana'']
   \<and> map py_strip ['' Brown  Bread '', '' milk'', '''', '' '', ''banana'']
        = [''Brown  Bread'', ''milk'', '''', '''', ''banana'']
   \<and> fst (webhook_handler init ''  log breakfast: Brown  Bread , milk,, ,banana '' epoch 0 epoch) =
        Inr (''webhook_meal_1_0'', ''breakfast'', [''Brown  Bread'', ''milk'', ''banana''],
             calculate_nutrients [''Brown  Bread'', ''milk'', ''banana''])
   \<and> py_strip ''log lunch: , ,'' = ''log '' @ ''lunch'' @ CHR '':'' # '' , ,''
   \<and> py_lower (py_strip ''lunch'') \<in> set valid_meals
   \<and> fst (webhook_handler init ''log lunch: , ,'' epoch 0 epoch) = Inl NoFoodItems
   \<and> py_strip ''log lunch:rice,,dal'' = ''log '' @ ''lunch'' @ CHR '':'' # ''rice,,dal''
   \<and> fst (webhook_handler init ''log lunch:rice,,dal'' epoch 0 epoch) =
        Inr (''webhook_meal_1_0'', ''lunch'', [''rice'', ''dal''], calculate_nutrients [''rice'', ''dal''])"
proof -
  have h1: "py_strip ''  log breakfast: Brown  Bread , milk,, ,banana ''
      = ''log '' @ ''breakfast'' @ CHR '':'' # '' Brown  Bread , milk,, ,banana''"
    by code_simp
  have h2: "CHR '':'' \<notin> set ''breakfast''" by simp
  have h3: "py_lower (py_strip ''breakfast'') \<in> set valid_meals" by code_simp
  have l1: "py_lower (py_strip ''breakfast'') = ''breakfast''" by code_simp
  have sp: "py_split CHR '','' '' Brown  Bread , milk,, ,banana''
        = ['' Brown  Bread '', '' milk'', '''', '' '', ''banana'']"
    by code_simp
  have ms: "map py_strip ['' Brown  Bread '', '' milk'', '''', '' '', ''banana'']
        = [''Brown  Bread'', ''milk'', '''', '''', ''banana'']"
    by code_simp
  have t1: "filter (\<lambda>t. t \<noteq> []) (map py_strip (py_split CHR '','' '' Brown  Bread , milk,, ,banana''))
        = [''Brown  Bread'', ''milk'', ''banana'']"
    unfolding sp ms by simp
  have i: "''webhook_meal_'' @ str_nat (length (meals init) + 1) @ ''_'' @ str_int 0 = ''webhook_meal_1_0''"
    by code_simp
  have g1: "py_strip ''log lunch: , ,'' = ''log '' @ ''lunch'' @ CHR '':'' # '' , ,''"
    by code_simp
  have g2: "CHR '':'' \<notin> set ''lunch''" by simp
  have g3: "py_lower (py_strip ''lunch'') \<in> set valid_meals" by code_simp
  have l2: "py_lower (py_strip ''lunch'') = ''lunch''" by code_simp
  have t2: "filter (\<lambda>t. t \<noteq> []) (map py_strip (py_split CHR '','' '' , ,'')) = []"
    by code_simp
  have k1: "py_strip ''log lunch:rice,,dal'' = ''log '' @ ''lunch'' @ CHR '':'' # ''rice,,dal''"
    by code_simp
  have t3: "filter (\<lambda>t. t \<noteq> []) (map py_strip (py_split CHR '','' ''rice,,dal'')) = [''rice'', ''dal'']"
    by code_simp
  have W1: "fst (webhook_handler init ''  log breakfast: Brown  Bread , milk,, ,banana '' epoch 0 epoch) =
        Inr (''webhook_meal_1_0'', ''breakfast'', [''Brown  Bread'', ''milk'', ''banana''],
             calculate_nutrients [''Brown  Bread'', ''milk'', ''banana''])"
    using webhook_food_items [OF h1 h2 h3, of init epoch 0 epoch]
    unfolding t1 l1 i by simp
  have W2: "fst (webhook_handler init ''log lunch: , ,'' epoch 0 epoch) = Inl NoFoodItems"
    using webhook_food_items [OF g1 g2 g3, of init epoch 0 epoch]
    unfolding t2 by simp
  have W3: "fst (webhook_handler init ''log lunch:rice,,dal'' epoch 0 epoch) =
        Inr (''webhook_meal_1_0'', ''lunch'', [''rice'', ''dal''], calculate_nutrients [''rice'', ''dal''])"
    using webhook_food_items [OF k1 g2 g3, of init epoch 0 epoch]
    unfolding t3 l2 i by simp
  show ?thesis
    using h1 h2 h3 sp ms W1 g1 g3 W2 k1 W3 by blast
qed

subsection \<open>Identifiers\<close>

lemma dict_in_iff: "dict_in k d \<longleftrightarrow> k \<in> fst ` set d"
  by (simp add: dict_in_def map_of_eq_None_iff)

lemma dict_set_fresh: "k \<notin> fst ` set d \<Longrightarrow> dict_set k v d = d @ [(k, v)]"
  by (induction d) auto

lemma map_of_dict_set: "map_of (dict_set k v d) = (map_of d)(k \<mapsto> v)"
  by (induction d) (auto simp: fun_eq_iff)

lemma digit_not_underscore: "(d::nat) < 10 \<Longrightarrow> char_of (48 + d) \<noteq> CHR ''_''"
proof
  assume d: "d < 10" and e: "char_of (48 + d) = CHR ''_''"
  have "(of_char (char_of (48 + d) :: char) :: nat) = of_char (CHR ''_'')"
    by (simp only: e)
  then show False using d by simp
qed

lemma str_nat_no_underscore: "CHR ''_'' \<notin> set (str_nat n)"
proof (induction n rule: str_nat.induct)
  case (1 n)
  show ?case
  proof (cases "n < 10")
    case True
    then show ?thesis using digit_not_underscore[of n] by (subst str_nat.simps) auto
  next
    case False
    have "n mod 10 < 10" by simp
    then have "char_of (48 + n mod 10) \<noteq> CHR ''_''" by (rule digit_not_underscore)
    then show ?thesis using False 1 by (subst str_nat.simps) auto
  qed
qed

lemma nat_of_str_snoc: "nat_of_str (s @ [c]) = 10 * nat_of_str s + (of_char c - 48)"
  by (simp add: nat_of_str_def)

lemma nat_of_str_str_nat: "nat_of_str (str_nat n) = n"
proof (induction n rule: str_nat.induct)
  case (1 n)
  show ?case
  proof (cases "n < 10")
    case True
    then show ?thesis by (subst str_nat.simps) (simp add: nat_of_str_def)
  next
    case False
    have "nat_of_str (str_nat (n div 10) @ [char_of (48 + n mod 10)]) = 10 * (n div 10) + n mod 10"
      using False 1 by (simp add: nat_of_str_snoc)
    then show ?thesis using False by (subst str_nat.simps) simp
  qed
qed

lemma id_seq_make: "length p = k \<Longrightarrow> id_seq k (p @ str_nat n @ ''_'' @ t) = n"
proof -
  assume "length p = k"
  then have "drop k (p @ str_nat n @ ''_'' @ t) = str_nat n @ CHR ''_'' # t" by simp
  moreover have "takeWhile (\<lambda>c. c \<noteq> CHR ''_'') (str_nat n @ CHR ''_'' # t)
      = str_nat n @ takeWhile (\<lambda>c. c \<noteq> CHR ''_'') (CHR ''_'' # t)"
    by (rule takeWhile_append2) (use str_nat_no_underscore[of n] in auto)
  ultimately show ?thesis by (simp add: id_seq_def nat_of_str_str_nat)
qed

lemma user_key_fresh:
  assumes "\<forall>k \<in> fst ` set us. user_key_ok (length us) k"
  shows "''user_'' @ str_nat (length us + 1) @ ''_'' @ t \<notin> fst ` set us"
proof
  let ?i = "''user_'' @ str_nat (length us + 1) @ ''_'' @ t"
  assume "?i \<in> fst ` set us"
  then have "user_key_ok (length us) ?i" using assms by blast
  moreover have "id_seq 5 ?i = length us + 1" by (rule id_seq_make) simp
  moreover have "?i \<noteq> default_user" by (simp add: default_user_def)
  ultimately show False by (simp add: user_key_ok_def)
qed

lemma meal_key_fresh:
  assumes "\<forall>k \<in> fst ` set ms. meal_key_ok (length ms) k"
  shows "''meal_'' @ str_nat (length ms + 1) @ ''_'' @ t \<notin> fst ` set ms"
proof
  let ?i = "''meal_'' @ str_nat (length ms + 1) @ ''_'' @ t"
  assume "?i \<in> fst ` set ms"
  then have "meal_key_ok (length ms) ?i" using assms by blast
  moreover have "id_seq 5 ?i = length ms + 1" by (rule id_seq_make) simp
  moreover have "take 13 ?i \<noteq> ''webhook_meal_''" by simp
  ultimately show False by (simp add: meal_key_ok_def)
qed

lemma webhook_meal_key_fresh:
  assumes "\<forall>k \<in> fst ` set ms. meal_key_ok (length ms) k"
  shows "''webhook_meal_'' @ str_nat (length ms + 1) @ ''_'' @ t \<notin> fst ` set ms"
proof
  let ?i = "''webhook_meal_'' @ str_nat (length ms + 1) @ ''_'' @ t"
  assume "?i \<in> fst ` set ms"
  then have "meal_key_ok (length ms) ?i" using assms by blast
  moreover have "id_seq 13 ?i = length ms + 1" by (rule id_seq_make) simp
  moreover have "take 5 ?i \<noteq> ''meal_''" by simp
  ultimately show False by (simp add: meal_key_ok_def)
qed

lemma user_key_ok_mono: "user_key_ok n k \<Longrightarrow> n \<le> m \<Longrightarrow> user_key_ok m k"
  by (auto simp: user_key_ok_def)

lemma meal_key_ok_mono: "meal_key_ok n k \<Longrightarrow> n \<le> m \<Longrightarrow> meal_key_ok m k"
  by (auto simp: meal_key_ok_def)

lemma user_key_ok_new: "user_key_ok (Suc n) (''user_'' @ str_nat (n + 1) @ ''_'' @ t)"
  using id_seq_make[of "''user_''" 5 "n + 1" t] by (simp add: user_key_ok_def)

lemma meal_key_ok_new: "meal_key_ok (Suc n) (''meal_'' @ str_nat (n + 1) @ ''_'' @ t)"
  using id_seq_make[of "''meal_''" 5 "n + 1" t] by (simp add: meal_key_ok_def)

lemma webhook_meal_key_ok_new: "meal_key_ok (Suc n) (''webhook_meal_'' @ str_nat (n + 1) @ ''_'' @ t)"
  using id_seq_make[of "''webhook_meal_''" 13 "n + 1" t] by (simp add: meal_key_ok_def)

lemma inv_init: "inv init"
  by (simp add: inv_def init_def user_keys_def meal_keys_def)

lemma register_user_cases:
  "register_user s d ts now = (Inl RegistrationFailed, s)
   \<or> (\<exists>b. register_user s d ts now =
          (Inr (''user_'' @ str_nat (length (users s) + 1) @ ''_'' @ str_int ts, b),
           s\<lparr>users := dict_set (''user_'' @ str_nat (length (users s) + 1) @ ''_'' @ str_int ts)
                \<lparr>name = name d, age = age d, weight = weight d, height = height d,
                 gender = gender d, goal = goal d,
                 uid = ''user_'' @ str_nat (length (users s) + 1) @ ''_'' @ str_int ts,
                 bmr = b, created_at = now\<rparr> (users s)\<rparr>))"
  by (cases "calculate_bmr (weight d) (height d) (age d) (gender d)")
     (simp_all add: register_user_def Let_def)

lemma log_meals_cases:
  "(\<exists>e. log_meals s d ts now = (Inl e, s))
   \<or> (dict_in (user d) (users s) \<and> log_meals s d ts now =
          (Inr (''meal_'' @ str_nat (length (meals s) + 1) @ ''_'' @ str_int ts,
                calculate_nutrients (items d)),
           s\<lparr>meals := dict_set (''meal_'' @ str_nat (length (meals s) + 1) @ ''_'' @ str_int ts)
                \<lparr>mid = ''meal_'' @ str_nat (length (meals s) + 1) @ ''_'' @ str_int ts,
                 user_id = user d, meal_type = py_lower (meal d), food_items = items d,
                 logged_at = now, nutrients = calculate_nutrients (items d)\<rparr> (meals s)\<rparr>))"
  by (simp add: log_meals_def Let_def)

lemma webhook_handler_cases:
  "(\<exists>e. webhook_handler s msg now_user ts now = (Inl e, s))
   \<or> (\<exists>mt fs b. calculate_bmr (float_lit 70) (float_lit 170) 25 ''male'' = Inr b
        \<and> fs \<noteq> []
        \<and> webhook_handler s msg now_user ts now =
          (Inr (''webhook_meal_'' @ str_nat (length (meals s) + 1) @ ''_'' @ str_int ts,
                mt, fs, calculate_nutrients fs),
           \<lparr>users = (if dict_in default_user (users s) then users s
                     else dict_set default_user (webhook_user_rec b now_user) (users s)),
            meals = dict_set (''webhook_meal_'' @ str_nat (length (meals s) + 1) @ ''_'' @ str_int ts)
                \<lparr>mid = ''webhook_meal_'' @ str_nat (length (meals s) + 1) @ ''_'' @ str_int ts,
                 user_id = default_user, meal_type = mt, food_items = fs,
                 logged_at = now, nutrients = calculate_nutrients fs\<rparr> (meals s)\<rparr>))"
proof -
  obtain b where b: "calculate_bmr (float_lit 70) (float_lit 170) 25 ''male'' = Inr b"
    using calculate_bmr_male_ok by blast
  show ?thesis
    by (auto simp: webhook_handler_def py_split1_def Let_def b)
qed

lemma register_user_inv:
  assumes "inv s" "register_user s d ts now = (r, s')"
  shows "inv s' \<and> user_keys s \<subseteq> user_keys s' \<and> meals s' = meals s
       \<and> (\<forall>i b. r = Inr (i, b) \<longrightarrow> i \<notin> user_keys s \<and> i \<in> user_keys s')"
proof -
  let ?i = "''user_'' @ str_nat (length (users s) + 1) @ ''_'' @ str_int ts"
  have fresh: "?i \<notin> fst ` set (users s)"
    using assms(1) by (intro user_key_fresh) (simp add: inv_def user_keys_def meal_keys_def)
  from register_user_cases[of s d ts now] show ?thesis
  proof
    assume "register_user s d ts now = (Inl RegistrationFailed, s)"
    then show ?thesis using assms by (auto simp: user_keys_def meal_keys_def)
  next
    assume "\<exists>b. register_user s d ts now =
          (Inr (?i, b),
           s\<lparr>users := dict_set ?i
                \<lparr>name = name d, age = age d, weight = weight d, height = height d,
                 gender = gender d, goal = goal d, uid = ?i, bmr = b, created_at = now\<rparr> (users s)\<rparr>)"
    then obtain b u where u: "register_user s d ts now = (Inr (?i, b), s\<lparr>users := dict_set ?i u (users s)\<rparr>)"
      by blast
    then have r: "r = Inr (?i, b)" and s': "s' = s\<lparr>users := users s @ [(?i, u)]\<rparr>"
      using assms(2) fresh by (simp_all add: dict_set_fresh)
    have "inv s'"
      using assms(1) unfolding inv_def user_keys_def meal_keys_def s'
      by (auto intro: user_key_ok_mono user_key_ok_new[simplified])
    then show ?thesis using r s' fresh by (auto simp: user_keys_def meal_keys_def)
  qed
qed

lemma log_meals_inv:
  assumes "inv s" "log_meals s d ts now = (r, s')"
  shows "inv s' \<and> users s' = users s \<and> meal_keys s \<subseteq> meal_keys s'
       \<and> (\<forall>i n. r = Inr (i, n) \<longrightarrow> i \<notin> meal_keys s \<and> i \<in> meal_keys s')"
proof -
  let ?i = "''meal_'' @ str_nat (length (meals s) + 1) @ ''_'' @ str_int ts"
  have fresh: "?i \<notin> fst ` set (meals s)"
    using assms(1) by (intro meal_key_fresh) (simp add: inv_def user_keys_def meal_keys_def)
  from log_meals_cases[of s d ts now] show ?thesis
  proof
    assume "\<exists>e. log_meals s d ts now = (Inl e, s)"
    then show ?thesis using assms by (auto simp: user_keys_def meal_keys_def)
  next
    assume a: "dict_in (user d) (users s) \<and> log_meals s d ts now =
          (Inr (?i, calculate_nutrients (items d)),
           s\<lparr>meals := dict_set ?i
                \<lparr>mid = ?i, user_id = user d, meal_type = py_lower (meal d), food_items = items d,
                 logged_at = now, nutrients = calculate_nutrients (items d)\<rparr> (meals s)\<rparr>)"
    then obtain m where m: "user_id m = user d"
      and l: "log_meals s d ts now = (Inr (?i, calculate_nutrients (items d)), s\<lparr>meals := dict_set ?i m (meals s)\<rparr>)"
      by (metis meal_rec.select_convs(2))
    have uin: "user d \<in> fst ` set (users s)" using a by (simp add: dict_in_iff)
    have r: "r = Inr (?i, calculate_nutrients (items d))" and s': "s' = s\<lparr>meals := meals s @ [(?i, m)]\<rparr>"
      using assms(2) l fresh by (simp_all add: dict_set_fresh)
    have "inv s'"
      using assms(1) uin m unfolding inv_def user_keys_def meal_keys_def s'
      by (auto intro: meal_key_ok_mono meal_key_ok_new[simplified])
    then show ?thesis using r s' fresh by (auto simp: user_keys_def meal_keys_def)
  qed
qed

lemma webhook_handler_inv:
  assumes "inv s" "webhook_handler s msg now_user ts now = (r, s')"
  shows "inv s' \<and> user_keys s \<subseteq> user_keys s'
       \<and> meal_keys s \<subseteq> meal_keys s'
       \<and> (\<forall>i x. r = Inr (i, x) \<longrightarrow> i \<notin> meal_keys s \<and> i \<in> meal_keys s')"
proof -
  let ?i = "''webhook_meal_'' @ str_nat (length (meals s) + 1) @ ''_'' @ str_int ts"
  have fresh: "?i \<notin> fst ` set (meals s)"
    using assms(1) by (intro webhook_meal_key_fresh) (simp add: inv_def user_keys_def meal_keys_def)
  from webhook_handler_cases[of s msg now_user ts now] show ?thesis
  proof
    assume "\<exists>e. webhook_handler s msg now_user ts now = (Inl e, s)"
    then show ?thesis using assms by (auto simp: user_keys_def meal_keys_def)
  next
    assume "\<exists>mt fs b. calculate_bmr (float_lit 70) (float_lit 170) 25 ''male'' = Inr b
        \<and> fs \<noteq> []
        \<and> webhook_handler s msg now_user ts now =
          (Inr (?i, mt, fs, calculate_nutrients fs),
           \<lparr>users = (if dict_in default_user (users s) then users s
                     else dict_set default_user (webhook_user_rec b now_user) (users s)),
            meals = dict_set ?i
                \<lparr>mid = ?i, user_id = default_user, meal_type = mt, food_items = fs,
                 logged_at = now, nutrients = calculate_nutrients fs\<rparr> (meals s)\<rparr>)"
    then obtain mt fs u m where m: "user_id m = default_user"
      and w: "webhook_handler s msg now_user ts now =
          (Inr (?i, mt, fs, calculate_nutrients fs),
           \<lparr>users = (if dict_in default_user (users s) then users s
                     else dict_set default_user u (users s)),
            meals = dict_set ?i m (meals s)\<rparr>)"
      by (metis meal_rec.select_convs(2))
    let ?us = "if dict_in default_user (users s) then users s else users s @ [(default_user, u)]"
    have us_eq: "(if dict_in default_user (users s) then users s
                  else dict_set default_user u (users s)) = ?us"
      by (simp add: dict_set_fresh dict_in_iff)
    have ms_eq: "dict_set ?i m (meals s) = meals s @ [(?i, m)]"
      using fresh by (rule dict_set_fresh)
    have r: "r = Inr (?i, mt, fs, calculate_nutrients fs)"
      and s': "s' = \<lparr>users = ?us, meals = meals s @ [(?i, m)]\<rparr>"
      using assms(2) unfolding w us_eq ms_eq by simp_all
    have din: "default_user \<in> fst ` set ?us"
      by (auto simp: dict_in_iff)
    have sub: "fst ` set (users s) \<subseteq> fst ` set ?us" by auto
    have len: "length (users s) \<le> length ?us" by auto
    have k1: "\<forall>k \<in> fst ` set ?us. user_key_ok (length ?us) k"
    proof
      fix k assume "k \<in> fst ` set ?us"
      then have "k = default_user \<or> k \<in> fst ` set (users s)" by (auto split: if_splits)
      then show "user_key_ok (length ?us) k"
      proof
        assume "k = default_user" then show ?thesis by (simp add: user_key_ok_def)
      next
        assume "k \<in> fst ` set (users s)"
        then have "user_key_ok (length (users s)) k"
          using assms(1) unfolding inv_def user_keys_def meal_keys_def by blast
        then show ?thesis using len by (rule user_key_ok_mono)
      qed
    qed
    have k2: "\<forall>k \<in> fst ` set (meals s @ [(?i, m)]). meal_key_ok (length (meals s @ [(?i, m)])) k"
      using assms(1) unfolding inv_def user_keys_def meal_keys_def
      by (auto intro: meal_key_ok_mono webhook_meal_key_ok_new[simplified])
    have k3: "\<forall>x \<in> snd ` set (meals s @ [(?i, m)]). user_id x \<in> fst ` set ?us"
      using assms(1) m din sub unfolding inv_def user_keys_def meal_keys_def by auto
    have "inv s'"
      unfolding inv_def user_keys_def meal_keys_def s' using k1 k2 k3 by simp
    then show ?thesis using r s' fresh sub by (auto simp: user_keys_def meal_keys_def)
  qed
qed

lemma step_inv:
  assumes "inv s" "step s r = (x, s')"
  shows "inv s' \<and> user_keys s \<subseteq> user_keys s'
       \<and> meal_keys s \<subseteq> meal_keys s'
       \<and> (\<forall>i. x = UserId i \<longrightarrow> i \<notin> user_keys s \<and> i \<in> user_keys s')
       \<and> (\<forall>i. x = MealId i \<longrightarrow> i \<notin> meal_keys s \<and> i \<in> meal_keys s')"
proof (cases r)
  case (Register d ts now)
  obtain q t where q: "register_user s d ts now = (q, t)" by (cases "register_user s d ts now")
  have "meal_keys t = meal_keys s"
    using register_user_inv[OF assms(1) q] by (simp add: meal_keys_def)
  with register_user_inv[OF assms(1) q] assms(2) show ?thesis
    by (auto simp: Register q split: sum.splits prod.splits)
next
  case (LogMeals d ts now)
  obtain q t where q: "log_meals s d ts now = (q, t)" by (cases "log_meals s d ts now")
  have "user_keys t = user_keys s"
    using log_meals_inv[OF assms(1) q] by (simp add: user_keys_def)
  with log_meals_inv[OF assms(1) q] assms(2) show ?thesis
    by (auto simp: LogMeals q split: sum.splits prod.splits)
next
  case (Webhook msg now_user ts now)
  obtain q t where q: "webhook_handler s msg now_user ts now = (q, t)"
    by (cases "webhook_handler s msg now_user ts now")
  from webhook_handler_inv[OF assms(1) q] assms(2) show ?thesis
    by (auto simp: Webhook q split: sum.splits prod.splits)
qed

lemma run_inv:
  "inv s \<Longrightarrow> run s rs = (xs, s') \<Longrightarrow>
   inv s' \<and> user_keys s \<subseteq> user_keys s'
   \<and> meal_keys s \<subseteq> meal_keys s'
   \<and> distinct (user_ids xs) \<and> set (user_ids xs) \<inter> user_keys s = {}
   \<and> set (user_ids xs) \<subseteq> user_keys s'
   \<and> distinct (meal_ids xs) \<and> set (meal_ids xs) \<inter> meal_keys s = {}
   \<and> set (meal_ids xs) \<subseteq> meal_keys s'"
proof (induction rs arbitrary: s xs s')
  case Nil
  then show ?case by simp
next
  case (Cons r rs)
  obtain x s1 where st: "step s r = (x, s1)" by (cases "step s r")
  obtain ys s2 where rn: "run s1 rs = (ys, s2)" by (cases "run s1 rs")
  have xs: "xs = x # ys" and s': "s' = s2" using Cons.prems(2) st rn by auto
  note S = step_inv[OF Cons.prems(1) st]
  then have i1: "inv s1" by blast
  note R = Cons.IH[OF i1 rn]
  show ?case
  proof (cases x)
    case NoId
    then show ?thesis using S R unfolding xs s' by auto
  next
    case (UserId i)
    then show ?thesis using S R unfolding xs s' by auto
  next
    case (MealId i)
    then show ?thesis using S R unfolding xs s' by auto
  qed
qed

text \<open>
  Claim C10. In every sequence of registrations, structured meal logs and webhook
  messages run from the empty state, whatever the clock readings are, the user
  identifiers issued are pairwise distinct and the meal identifiers issued are pairwise
  distinct: each embeds the size of its dictionary, which grows with every insertion.
\<close>

theorem identifiers_never_reused:
  "distinct (user_ids (fst (run init rs))) \<and> distinct (meal_ids (fst (run init rs)))"
proof -
  obtain xs s' where r: "run init rs = (xs, s')" by (cases "run init rs")
  from run_inv[OF inv_init r] show ?thesis by (simp add: r)
qed

theorem identifiers_never_reused_witness:
  "user_ids (fst (run init
      [Register \<lparr>name = ''John Doe'', age = 30, weight = float_lit 75, height = float_lit 175,
                 gender = ''male'', goal = ''weight loss''\<rparr> 0 epoch,
       Register \<lparr>name = ''John Doe'', age = 30, weight = float_lit 75, height = float_lit 175,
                 gender = ''male'', goal = ''weight loss''\<rparr> 0 epoch,
       LogMeals \<lparr>user = ''user_1_0'', meal = ''lunch'', items = [''rice'']\<rparr> 0 epoch,
       Webhook ''log dinner:dal'' epoch 0 epoch,
       LogMeals \<lparr>user = ''nobody'', meal = ''lunch'', items = [''rice'']\<rparr> 0 epoch,
       LogMeals \<lparr>user = ''webhook_user'', meal = ''lunch'', items = []\<rparr> 0 epoch]))
     = [''user_1_0'', ''user_2_0'']
   \<and> meal_ids (fst (run init
      [Register \<lparr>name = ''John Doe'', age = 30, weight = float_lit 75, height = float_lit 175,
                 gender = ''male'', goal = ''weight loss''\<rparr> 0 epoch,
       Register \<lparr>name = ''John Doe'', age = 30, weight = float_lit 75, height = float_lit 175,
                 gender = ''male'', goal = ''weight loss''\<rparr> 0 epoch,
       LogMeals \<lparr>user = ''user_1_0'', meal = ''lunch'', items = [''rice'']\<rparr> 0 epoch,
       Webhook ''log dinner:dal'' epoch 0 epoch,
       LogMeals \<lparr>user = ''nobody'', meal = ''lunch'', items = [''rice'']\<rparr> 0 epoch,
       LogMeals \<lparr>user = ''webhook_user'', meal = ''lunch'', items = []\<rparr> 0 epoch]))
     = [''meal_1_0'', ''webhook_meal_2_0'', ''meal_3_0'']
   \<and> distinct [''user_1_0'', ''user_2_0'']
   \<and> distinct [''meal_1_0'', ''webhook_meal_2_0'', ''meal_3_0'']"
proof -
  let ?reg = "\<lparr>name = ''John Doe'', age = 30, weight = float_lit 75, height = float_lit 175,
                 gender = ''male'', goal = ''weight loss''\<rparr>"
  let ?rs = "[Register ?reg 0 epoch, Register ?reg 0 epoch,
       LogMeals \<lparr>user = ''user_1_0'', meal = ''lunch'', items = [''rice'']\<rparr> 0 epoch,
       Webhook ''log dinner:dal'' epoch 0 epoch,
       LogMeals \<lparr>user = ''nobody'', meal = ''lunch'', items = [''rice'']\<rparr> 0 epoch,
       LogMeals \<lparr>user = ''webhook_user'', meal = ''lunch'', items = []\<rparr> 0 epoch]"
  obtain b where b: "calculate_bmr (float_lit 75) (float_lit 175) 30 ''male'' = Inr b"
    using calculate_bmr_male_ok by blast
  obtain b' where b': "calculate_bmr (float_lit 70) (float_lit 170) 25 ''male'' = Inr b'"
    using calculate_bmr_male_ok by blast
  have n: "str_nat (Suc 0) = ''1''" "str_nat (Suc (Suc 0)) = ''2''" "str_nat (Suc (Suc (Suc 0))) = ''3''"
          "str_int 0 = ''0''"
    by code_simp+
  have l: "py_lower ''lunch'' = ''lunch''" by code_simp
  have p: "py_strip ''log dinner:dal'' = ''log dinner:dal''"
          "py_split1 CHR '':'' ''dinner:dal'' = [''dinner'', ''dal'']"
          "py_lower (py_strip ''dinner'') = ''dinner''"
          "py_strip ''dal'' = ''dal''"
          "py_split CHR '','' ''dal'' = [''dal'']"
    by code_simp+
  let ?u1 = "\<lparr>name = ''John Doe'', age = 30, weight = float_lit 75, height = float_lit 175,
               gender = ''male'', goal = ''weight loss'', uid = ''user_1_0'', bmr = b, created_at = epoch\<rparr>"
  let ?u2 = "\<lparr>name = ''John Doe'', age = 30, weight = float_lit 75, height = float_lit 175,
               gender = ''male'', goal = ''weight loss'', uid = ''user_2_0'', bmr = b, created_at = epoch\<rparr>"
  let ?m1 = "\<lparr>mid = ''meal_1_0'', user_id = ''user_1_0'', meal_type = ''lunch'',
               food_items = [''rice''], logged_at = epoch, nutrients = calculate_nutrients [''rice'']\<rparr>"
  let ?m2 = "\<lparr>mid = ''webhook_meal_2_0'', user_id = ''webhook_user'', meal_type = ''dinner'',
               food_items = [''dal''], logged_at = epoch, nutrients = calculate_nutrients [''dal'']\<rparr>"
  let ?m3 = "\<lparr>mid = ''meal_3_0'', user_id = ''webhook_user'', meal_type = ''lunch'',
               food_items = [], logged_at = epoch, nutrients = calculate_nutrients []\<rparr>"
  let ?s1 = "\<lparr>users = [(''user_1_0'', ?u1)], meals = []\<rparr>"
  let ?s2 = "\<lparr>users = [(''user_1_0'', ?u1), (''user_2_0'', ?u2)], meals = []\<rparr>"
  let ?s3 = "\<lparr>users = [(''user_1_0'', ?u1), (''user_2_0'', ?u2)], meals = [(''meal_1_0'', ?m1)]\<rparr>"
  let ?s4 = "\<lparr>users = [(''user_1_0'', ?u1), (''user_2_0'', ?u2),
                       (''webhook_user'', webhook_user_rec b' epoch)],
             meals = [(''meal_1_0'', ?m1), (''webhook_meal_2_0'', ?m2)]\<rparr>"
  let ?s6 = "\<lparr>users = [(''user_1_0'', ?u1), (''user_2_0'', ?u2),
                       (''webhook_user'', webhook_user_rec b' epoch)],
             meals = [(''meal_1_0'', ?m1), (''webhook_meal_2_0'', ?m2), (''meal_3_0'', ?m3)]\<rparr>"
  have n': "str_nat 1 = ''1''" "str_nat 2 = ''2''" "str_nat 3 = ''3''" "str_nat (Suc 1) = ''2''"
     "str_nat (Suc 2) = ''3''"
    by code_simp+
  have s1: "step init (Register ?reg 0 epoch) = (UserId ''user_1_0'', ?s1)"
    by (simp add: register_user_def init_def b n n' Let_def)
  have s2: "step ?s1 (Register ?reg 0 epoch) = (UserId ''user_2_0'', ?s2)"
    by (simp add: register_user_def b n n' Let_def)
  have s3: "step ?s2 (LogMeals \<lparr>user = ''user_1_0'', meal = ''lunch'', items = [''rice'']\<rparr> 0 epoch)
            = (MealId ''meal_1_0'', ?s3)"
    by (simp add: log_meals_def dict_in_def valid_meals_def l n n' Let_def)
  have s4: "step ?s3 (Webhook ''log dinner:dal'' epoch 0 epoch) = (MealId ''webhook_meal_2_0'', ?s4)"
    by (simp add: webhook_handler_def dict_in_def default_user_def valid_meals_def startswith_def
          p b' n n' Let_def)
  have s5: "step ?s4 (LogMeals \<lparr>user = ''nobody'', meal = ''lunch'', items = [''rice'']\<rparr> 0 epoch)
            = (NoId, ?s4)"
    by (simp add: log_meals_def dict_in_def)
  have s6: "step ?s4 (LogMeals \<lparr>user = ''webhook_user'', meal = ''lunch'', items = []\<rparr> 0 epoch)
            = (MealId ''meal_3_0'', ?s6)"
    by (simp add: log_meals_def dict_in_def valid_meals_def l n n' Let_def)
  have r: "fst (run init ?rs) =
     [UserId ''user_1_0'', UserId ''user_2_0'', MealId ''meal_1_0'', MealId ''webhook_meal_2_0'',
       NoId, MealId ''meal_3_0'']"
    by (simp only: run.simps s1 s2 s3 s4 s5 s6 prod.case fst_conv)
  show ?thesis
    using identifiers_never_reused [of ?rs] unfolding r by simp
qed

subsection \<open>Unknown users and the default user\<close>

lemma webhook_bmr: "calculate_bmr (float_lit 70) (float_lit 170) 25 ''male'' = Inr (float_lit (170006 / 100))"
  by code_simp

lemma webhook_handler_not_UserNotFound:
  "fst (webhook_handler s msg now_user ts now) \<noteq> Inl UserNotFound"
  by (simp add: webhook_handler_fst)

text \<open>
  Claim C7. The structured path, called for a user that is not in the registry, fails with
  \<open>UserNotFound\<close> and returns the state as it was, so nothing is added to the meals. The
  free-text path never fails with \<open>UserNotFound\<close>: a message it rejects leaves the state
  unchanged, and for a message it accepts the registry afterwards is the registry before if
  the key "webhook_user" is present, and otherwise the registry before followed by that key
  with the fixed placeholder record (its \<^verbatim>\<open>bmr\<close> is 1700.06 and its \<^verbatim>\<open>created_at\<close> the clock
  reading taken at creation); the meal stored under the returned identifier belongs to
  "webhook_user".
\<close>

theorem unknown_user_structured_vs_webhook:
  "(\<not> dict_in (user d) (users s) \<longrightarrow> log_meals s d ts now = (Inl UserNotFound, s))
   \<and> fst (webhook_handler s msg now_user ts' now') \<noteq> Inl UserNotFound
   \<and> (\<forall>e. fst (webhook_handler s msg now_user ts' now') = Inl e \<longrightarrow>
          snd (webhook_handler s msg now_user ts' now') = s)
   \<and> (\<forall>i mt fs n. fst (webhook_handler s msg now_user ts' now') = Inr (i, mt, fs, n) \<longrightarrow>
          users (snd (webhook_handler s msg now_user ts' now')) =
            (if dict_in ''webhook_user'' (users s) then users s
             else users s @
                  [(''webhook_user'',
                    \<lparr>name = ''Webhook User'', age = 25, weight = float_lit 70,
                     height = float_lit 170, gender = ''male'', goal = ''general'',
                     uid = ''webhook_user'', bmr = float_lit (170006 / 100),
                     created_at = now_user\<rparr>)])
          \<and> (\<exists>m. map_of (meals (snd (webhook_handler s msg now_user ts' now'))) i = Some m
                \<and> user_id m = ''webhook_user''))"
proof -
  let ?w = "webhook_handler s msg now_user ts' now'"
  have A: "\<not> dict_in (user d) (users s) \<longrightarrow> log_meals s d ts now = (Inl UserNotFound, s)"
    by (simp add: log_meals_def)
  have B: "fst ?w \<noteq> Inl UserNotFound" by (rule webhook_handler_not_UserNotFound)
  from webhook_handler_cases[of s msg now_user ts' now']
  consider (err) e where "?w = (Inl e, s)"
    | (ok) mt fs b where "calculate_bmr (float_lit 70) (float_lit 170) 25 ''male'' = Inr b"
        "?w = (Inr (''webhook_meal_'' @ str_nat (length (meals s) + 1) @ ''_'' @ str_int ts',
                mt, fs, calculate_nutrients fs),
           \<lparr>users = (if dict_in default_user (users s) then users s
                     else dict_set default_user (webhook_user_rec b now_user) (users s)),
            meals = dict_set (''webhook_meal_'' @ str_nat (length (meals s) + 1) @ ''_'' @ str_int ts')
                \<lparr>mid = ''webhook_meal_'' @ str_nat (length (meals s) + 1) @ ''_'' @ str_int ts',
                 user_id = default_user, meal_type = mt, food_items = fs,
                 logged_at = now', nutrients = calculate_nutrients fs\<rparr> (meals s)\<rparr>)"
    by blast
  then show ?thesis
  proof cases
    case err
    then show ?thesis using A B by simp
  next
    case ok
    have b: "b = float_lit (170006 / 100)" using ok(1) by (simp add: webhook_bmr)
    have f: "\<not> dict_in default_user (users s) \<Longrightarrow>
             dict_set default_user (webhook_user_rec b now_user) (users s)
               = users s @ [(default_user, webhook_user_rec b now_user)]"
      by (rule dict_set_fresh) (simp add: dict_in_iff)
    show ?thesis
      using A B f unfolding ok(2) b
      by (simp add: map_of_dict_set default_user_def webhook_user_rec_def)
  qed
qed

theorem unknown_user_structured_vs_webhook_witness:
  "\<not> dict_in ''nobody'' (users init)
   \<and> log_meals init \<lparr>user = ''nobody'', meal = ''lunch'', items = [''rice'']\<rparr> 0 epoch
        = (Inl UserNotFound, init)
   \<and> \<not> dict_in ''webhook_user'' (users init)
   \<and> fst (webhook_handler init ''log lunch: rice'' epoch 0 epoch)
        = Inr (''webhook_meal_1_0'', ''lunch'', [''rice''], calculate_nutrients [''rice''])
   \<and> users (snd (webhook_handler init ''log lunch: rice'' epoch 0 epoch))
        = [(''webhook_user'',
            \<lparr>name = ''Webhook User'', age = 25, weight = float_lit 70,
             height = float_lit 170, gender = ''male'', goal = ''general'',
             uid = ''webhook_user'', bmr = float_lit (170006 / 100), created_at = epoch\<rparr>)]
   \<and> (\<exists>m. map_of (meals (snd (webhook_handler init ''log lunch: rice'' epoch 0 epoch)))
              ''webhook_meal_1_0'' = Some m \<and> user_id m = ''webhook_user'')
   \<and> dict_in ''webhook_user''
        (users \<lparr>users = [(''webhook_user'', webhook_user_rec 1 epoch)], meals = []\<rparr>)
   \<and> fst (webhook_handler \<lparr>users = [(''webhook_user'', webhook_user_rec 1 epoch)], meals = []\<rparr>
             ''log dinner: dal''
             \<lparr>year = 2024, month = 1, day = 15, hour = 10, minute = 30, second = 0, microsecond = 0\<rparr>
             7
             \<lparr>year = 2024, month = 1, day = 15, hour = 10, minute = 30, second = 0, microsecond = 0\<rparr>)
        = Inr (''webhook_meal_1_7'', ''dinner'', [''dal''], calculate_nutrients [''dal''])
   \<and> users (snd (webhook_handler \<lparr>users = [(''webhook_user'', webhook_user_rec 1 epoch)], meals = []\<rparr>
             ''log dinner: dal''
             \<lparr>year = 2024, month = 1, day = 15, hour = 10, minute = 30, second = 0, microsecond = 0\<rparr>
             7
             \<lparr>year = 2024, month = 1, day = 15, hour = 10, minute = 30, second = 0, microsecond = 0\<rparr>))
        = [(''webhook_user'', webhook_user_rec 1 epoch)]
   \<and> fst (webhook_handler init ''eat lunch: rice'' epoch 0 epoch) = Inl InvalidFormatPrefix
   \<and> snd (webhook_handler init ''eat lunch: rice'' epoch 0 epoch) = init"
proof -
  let ?d = "\<lparr>user = ''nobody'', meal = ''lunch'', items = [''rice'']\<rparr>"
  let ?s1 = "\<lparr>users = [(''webhook_user'', webhook_user_rec 1 epoch)], meals = []\<rparr>"
  let ?t = "\<lparr>year = 2024, month = 1, day = 15, hour = 10, minute = 30, second = 0, microsecond = 0\<rparr>"
  have a1: "\<not> dict_in ''nobody'' (users init)" by (simp add: dict_in_def init_def)
  have a2: "\<not> dict_in ''webhook_user'' (users init)" by (simp add: dict_in_def init_def)
  have a3: "dict_in ''webhook_user'' (users ?s1)" by (simp add: dict_in_def)
  have p: "py_strip ''log lunch: rice'' = ''log lunch: rice''"
          "py_strip ''log dinner: dal'' = ''log dinner: dal''"
          "py_strip ''eat lunch: rice'' = ''eat lunch: rice''"
          "py_lower (py_strip ''lunch'') = ''lunch''"
          "py_lower (py_strip ''dinner'') = ''dinner''"
          "py_strip '' rice'' = ''rice''" "py_strip ''rice'' = ''rice''"
          "py_strip '' dal'' = ''dal''" "py_strip ''dal'' = ''dal''"
          "py_split CHR '','' ''rice'' = [''rice'']"
          "py_split CHR '','' ''dal'' = [''dal'']"
          "str_nat 1 = ''1''" "str_nat (Suc 0) = ''1''" "str_int 0 = ''0''" "str_int 7 = ''7''"
    by code_simp+
  have f1: "fst (webhook_handler init ''log lunch: rice'' epoch 0 epoch)
        = Inr (''webhook_meal_1_0'', ''lunch'', [''rice''], calculate_nutrients [''rice''])"
    by (simp add: webhook_handler_fst p startswith_def valid_meals_def init_def)
  have f2: "fst (webhook_handler ?s1 ''log dinner: dal'' ?t 7 ?t)
        = Inr (''webhook_meal_1_7'', ''dinner'', [''dal''], calculate_nutrients [''dal''])"
    by (simp add: webhook_handler_fst p startswith_def valid_meals_def)
  have f3: "fst (webhook_handler init ''eat lunch: rice'' epoch 0 epoch) = Inl InvalidFormatPrefix"
    by (simp add: webhook_handler_fst p startswith_def)
  note T1 = unknown_user_structured_vs_webhook
              [where d = ?d and s = init and ts = 0 and now = epoch
                 and msg = "''log lunch: rice''" and now_user = epoch and ts' = 0 and now' = epoch]
  note T2 = unknown_user_structured_vs_webhook
              [where d = ?d and s = ?s1 and ts = 0 and now = epoch
                 and msg = "''log dinner: dal''" and now_user = ?t and ts' = 7 and now' = ?t]
  note T3 = unknown_user_structured_vs_webhook
              [where d = ?d and s = init and ts = 0 and now = epoch
                 and msg = "''eat lunch: rice''" and now_user = epoch and ts' = 0 and now' = epoch]
  have c1: "log_meals init ?d 0 epoch = (Inl UserNotFound, init)"
    using T1 a1 by simp
  have c2: "users (snd (webhook_handler init ''log lunch: rice'' epoch 0 epoch))
        = [(''webhook_user'',
            \<lparr>name = ''Webhook User'', age = 25, weight = float_lit 70,
             height = float_lit 170, gender = ''male'', goal = ''general'',
             uid = ''webhook_user'', bmr = float_lit (170006 / 100), created_at = epoch\<rparr>)]"
       and c3: "\<exists>m. map_of (meals (snd (webhook_handler init ''log lunch: rice'' epoch 0 epoch)))
              ''webhook_meal_1_0'' = Some m \<and> user_id m = ''webhook_user''"
    using T1 f1 a2 by (simp_all add: init_def)
  have c4: "users (snd (webhook_handler ?s1 ''log dinner: dal'' ?t 7 ?t))
        = [(''webhook_user'', webhook_user_rec 1 epoch)]"
    using T2 f2 a3 by simp
  have c5: "snd (webhook_handler init ''eat lunch: rice'' epoch 0 epoch) = init"
    using T3 f3 by simp
  show ?thesis
    using a1 c1 a2 f1 c2 c3 a3 f2 c4 f3 c5 by blast
qed

subsection \<open>Listing meals by date\<close>

lemma of_char_digit_char: "k < 10 \<Longrightarrow> (of_char (digit_char k) :: nat) = 48 + k"
  by (simp add: digit_char_def)

lemma is_digit_digit_char: "k < 10 \<Longrightarrow> is_digit (digit_char k)"
  by (simp add: is_digit_def of_char_digit_char)

lemma digit_val_digit_char: "k < 10 \<Longrightarrow> digit_val (digit_char k) = k"
  by (simp add: digit_val_def of_char_digit_char)

lemma is_digit_in_digit_char: "k < 10 \<Longrightarrow> is_digit_in lo hi (digit_char k) \<longleftrightarrow> lo \<le> k \<and> k \<le> hi"
  by (simp add: is_digit_in_def is_digit_digit_char digit_val_digit_char)

lemma decimal_four:
  "1000 * (y div 1000) + 100 * (y div 100 mod 10) + 10 * (y div 10 mod 10) + y mod 10 = (y::nat)"
proof -
  define a where "a = y div 10"
  define b where "b = a div 10"
  define c where "c = b div 10"
  define r0 where "r0 = y mod 10"
  define r1 where "r1 = a mod 10"
  define r2 where "r2 = b mod 10"
  have e1: "y div 100 = b" using div_mult2_eq[of y 10 10] by (simp add: a_def b_def)
  have e2: "y div 1000 = c" using div_mult2_eq[of y 100 10] e1 by (simp add: c_def)
  have y: "y = 10 * a + r0" by (simp add: a_def r0_def)
  have a: "a = 10 * b + r1" by (simp add: b_def r1_def)
  have b: "b = 10 * c + r2" by (simp add: c_def r2_def)
  have "1000 * c + 100 * r2 + 10 * r1 + r0 = y"
    by (subst y, subst a, subst b) simp
  then show ?thesis
    unfolding e1 e2 r2_def[symmetric] a_def[symmetric] r1_def[symmetric] r0_def[symmetric] .
qed

lemma re_Y_iso:
  assumes "y \<le> 9999"
  shows "re_Y (digit_char (y div 1000) # digit_char (y div 100 mod 10) # digit_char (y div 10 mod 10)
               # digit_char (y mod 10) # r) = [(y, r)]"
proof -
  have "y < 10 * 1000" using assms by simp
  then have "y div 1000 < 10" by (rule less_mult_imp_div_less)
  then show ?thesis
    by (simp add: re_Y_def is_digit_digit_char digit_val_digit_char decimal_four)
qed

lemma re_m_iso:
  assumes "1 \<le> m" "m \<le> 12"
  shows "\<exists>rest. re_m (digit_char (m div 10) # digit_char (m mod 10) # r) = (m, r) # rest"
proof -
  have a: "m div 10 < 10" "m mod 10 < 10" using assms by simp_all
  have v: "10 * (m div 10) + m mod 10 = m" by presburger
  show ?thesis
  proof (cases "m < 10")
    case True
    then have "m div 10 = 0" "m mod 10 = m" by simp_all
    then show ?thesis using assms True
      by (simp add: re_m_def re_two_def re_one_def is_digit_in_digit_char digit_val_digit_char)
  next
    case False
    then have "m div 10 = 1" "m mod 10 \<le> 2" using assms by presburger+
    then show ?thesis using assms v
      by (simp add: re_m_def re_two_def re_one_def is_digit_in_digit_char digit_val_digit_char)
  qed
qed

lemma re_d_iso:
  assumes "1 \<le> d" "d \<le> 31"
  shows "\<exists>rest. re_d (digit_char (d div 10) # digit_char (d mod 10) # r) = (d, r) # rest"
proof -
  have a: "d div 10 < 10" "d mod 10 < 10" using assms by simp_all
  have v: "10 * (d div 10) + d mod 10 = d" by presburger
  consider "d < 10" | "10 \<le> d" "d < 30" | "30 \<le> d" by linarith
  then show ?thesis
  proof cases
    case 1
    then have "d div 10 = 0" "d mod 10 = d" by simp_all
    then show ?thesis using assms 1
      by (simp add: re_d_def re_two_def re_one_def is_digit_in_digit_char digit_val_digit_char)
  next
    case 2
    then have "d div 10 = 1 \<or> d div 10 = 2" by presburger
    then show ?thesis using assms v a
      by (auto simp: re_d_def re_two_def re_one_def is_digit_in_digit_char digit_val_digit_char)
  next
    case 3
    then have "d div 10 = 3" "d mod 10 \<le> 1" using assms by presburger+
    then show ?thesis using assms v
      by (simp add: re_d_def re_two_def re_one_def is_digit_in_digit_char digit_val_digit_char)
  qed
qed

lemma days_in_month_le: "days_in_month y m \<le> 31"
  by (simp add: days_in_month_def)

lemma strptime_ymd_isoformat:
  assumes "valid_date y m d"
  shows "strptime_ymd (date_isoformat (y, m, d)) = Some (y, m, d)"
proof -
  have y: "y \<le> 9999" and m: "1 \<le> m" "m \<le> 12" and d: "1 \<le> d" "d \<le> 31"
    using assms days_in_month_le[of y m] by (auto simp: valid_date_def)
  obtain r1 where r1: "re_m (digit_char (m div 10) # digit_char (m mod 10) # CHR ''-'' #
                  [digit_char (d div 10), digit_char (d mod 10)])
                = (m, CHR ''-'' # [digit_char (d div 10), digit_char (d mod 10)]) # r1"
    using re_m_iso[OF m] by blast
  obtain r2 where r2: "re_d [digit_char (d div 10), digit_char (d mod 10)] = (d, []) # r2"
    using re_d_iso[OF d] by blast
  have "\<exists>rest. re_ymd (date_isoformat (y, m, d)) = ((y, m, d), []) # rest"
    by (simp add: re_ymd_def date_isoformat_def re_Y_iso[OF y] re_lit_def r1 r2)
  then show ?thesis using assms by (auto simp: strptime_ymd_def)
qed

lemma strptime_ymd_valid: "strptime_ymd ds = Some (y, m, d) \<Longrightarrow> valid_date y m d"
  by (auto simp: strptime_ymd_def split: list.splits if_splits prod.splits)

lemma date_isoformat_nonempty: "date_isoformat (y, m, d) \<noteq> []"
  by (simp add: date_isoformat_def)

lemmas strptime_eval = strptime_ymd_def re_ymd_def re_Y_def re_m_def re_d_def re_two_def re_one_def
  re_lit_def is_digit_in_def is_digit_def digit_val_def valid_date_def days_in_month_def is_leap_def

text \<open>
  Claim C9, as stated, fails for the empty date filter: the empty string does not parse as
  a date, yet the test \<^verbatim>\<open>if date:\<close> is false for it, so the listing does not fail with
  \<open>InvalidDateFormat\<close> and returns all the meals of the user. The state below is the one
  reached from the empty state by the webhook message "log lunch: rice".
\<close>

theorem empty_date_filter_counterexample:
  "strptime_ymd '''' = None
   \<and> dict_in ''webhook_user''
        (users \<lparr>users = [(''webhook_user'', webhook_user_rec (float_lit (170006 / 100)) epoch)],
                meals = [(''webhook_meal_1_0'',
                          \<lparr>mid = ''webhook_meal_1_0'', user_id = ''webhook_user'',
                           meal_type = ''lunch'', food_items = [''rice''], logged_at = epoch,
                           nutrients = calculate_nutrients [''rice'']\<rparr>)]\<rparr>)
   \<and> get_user_meals
        \<lparr>users = [(''webhook_user'', webhook_user_rec (float_lit (170006 / 100)) epoch)],
         meals = [(''webhook_meal_1_0'',
                   \<lparr>mid = ''webhook_meal_1_0'', user_id = ''webhook_user'',
                    meal_type = ''lunch'', food_items = [''rice''], logged_at = epoch,
                    nutrients = calculate_nutrients [''rice'']\<rparr>)]\<rparr>
        ''webhook_user'' (Some '''')
       = Inr ([\<lparr>mid = ''webhook_meal_1_0'', user_id = ''webhook_user'',
                meal_type = ''lunch'', food_items = [''rice''], logged_at = epoch,
                nutrients = calculate_nutrients [''rice'']\<rparr>], 1)"
proof -
  have "strptime_ymd '''' = None" by (simp add: strptime_eval)
  then show ?thesis by (simp add: get_user_meals_def dict_in_def)
qed

text \<open>
  Claim C9, amended. For an unknown user the listing fails with \<open>UserNotFound\<close> whatever the
  filter is. For a known user: an absent or empty date filter gives all the meals of the
  user in insertion order; a non-empty filter that \<^verbatim>\<open>strptime\<close> rejects fails with
  \<open>InvalidDateFormat\<close>, returning no meals; a non-empty filter that parses to a date gives
  exactly the meals of the user whose \<^verbatim>\<open>logged_at\<close> falls on that calendar date, in
  insertion order, with their number; and every valid calendar date written as YYYY-MM-DD
  is such a filter for that date.
\<close>

theorem get_user_meals_date_filter:
  "(\<not> dict_in u (users s) \<longrightarrow> get_user_meals s u date = Inl UserNotFound)
   \<and> (dict_in u (users s) \<longrightarrow>
        get_user_meals s u None =
          Inr (filter (\<lambda>m. user_id m = u) (map snd (meals s)),
               length (filter (\<lambda>m. user_id m = u) (map snd (meals s))))
        \<and> get_user_meals s u (Some '''') = get_user_meals s u None
        \<and> (ds \<noteq> '''' \<and> strptime_ymd ds = None \<longrightarrow>
             get_user_meals s u (Some ds) = Inl InvalidDateFormat)
        \<and> (ds \<noteq> '''' \<and> strptime_ymd ds = Some d \<longrightarrow>
             get_user_meals s u (Some ds) =
               Inr (filter (\<lambda>m. user_id m = u \<and> date_of (logged_at m) = d) (map snd (meals s)),
                    length (filter (\<lambda>m. user_id m = u \<and> date_of (logged_at m) = d)
                              (map snd (meals s)))))
        \<and> (valid_date y mo dy \<longrightarrow>
             get_user_meals s u (Some (date_isoformat (y, mo, dy))) =
               Inr (filter (\<lambda>m. user_id m = u \<and> date_of (logged_at m) = (y, mo, dy))
                      (map snd (meals s)),
                    length (filter (\<lambda>m. user_id m = u \<and> date_of (logged_at m) = (y, mo, dy))
                              (map snd (meals s))))))"
proof -
  have A: "\<not> dict_in u (users s) \<longrightarrow> get_user_meals s u date = Inl UserNotFound"
    by (simp add: get_user_meals_def)
  have B: "get_user_meals s u (Some ds) =
               Inr (filter (\<lambda>m. user_id m = u \<and> date_of (logged_at m) = d) (map snd (meals s)),
                    length (filter (\<lambda>m. user_id m = u \<and> date_of (logged_at m) = d)
                              (map snd (meals s))))"
    if "dict_in u (users s)" "ds \<noteq> ''''" "strptime_ymd ds = Some d" for ds d
    using that by (simp add: get_user_meals_def Let_def conj_commute)
  have C: "get_user_meals s u (Some (date_isoformat (y, mo, dy))) =
               Inr (filter (\<lambda>m. user_id m = u \<and> date_of (logged_at m) = (y, mo, dy))
                      (map snd (meals s)),
                    length (filter (\<lambda>m. user_id m = u \<and> date_of (logged_at m) = (y, mo, dy))
                              (map snd (meals s))))"
    if "dict_in u (users s)" "valid_date y mo dy"
    using that(1) date_isoformat_nonempty[of y mo dy] strptime_ymd_isoformat[OF that(2)]
    by (rule B)
  have D: "dict_in u (users s) \<Longrightarrow> get_user_meals s u None =
          Inr (filter (\<lambda>m. user_id m = u) (map snd (meals s)),
               length (filter (\<lambda>m. user_id m = u) (map snd (meals s))))"
    by (simp add: get_user_meals_def Let_def)
  have E: "get_user_meals s u (Some '''') = get_user_meals s u None"
    by (simp add: get_user_meals_def Let_def)
  have F: "dict_in u (users s) \<Longrightarrow> ds \<noteq> '''' \<Longrightarrow> strptime_ymd ds = None \<Longrightarrow>
             get_user_meals s u (Some ds) = Inl InvalidDateFormat"
    by (simp add: get_user_meals_def Let_def)
  show ?thesis using A B C D E F by blast
qed

theorem get_user_meals_date_filter_witness:
  "dict_in ''alice'' (users example_state) \<and> dict_in ''bob'' (users example_state)
   \<and> \<not> dict_in ''carol'' (users example_state)
   \<and> get_user_meals example_state ''carol'' (Some ''2024-01-15'') = Inl UserNotFound
   \<and> get_user_meals example_state ''alice'' None
        = Inr ([example_meal ''m1'' ''alice'' (on_day 15 8), example_meal ''m3'' ''alice'' (on_day 16 8),
                example_meal ''m4'' ''alice'' (on_day 15 20)], 3)
   \<and> get_user_meals example_state ''alice'' (Some '''')
        = Inr ([example_meal ''m1'' ''alice'' (on_day 15 8), example_meal ''m3'' ''alice'' (on_day 16 8),
                example_meal ''m4'' ''alice'' (on_day 15 20)], 3)
   \<and> strptime_ymd ''2024-01-15'' = Some (2024, 1, 15)
   \<and> get_user_meals example_state ''alice'' (Some ''2024-01-15'')
        = Inr ([example_meal ''m1'' ''alice'' (on_day 15 8),
                example_meal ''m4'' ''alice'' (on_day 15 20)], 2)
   \<and> get_user_meals example_state ''bob'' (Some ''2024-01-15'')
        = Inr ([example_meal ''m2'' ''bob'' (on_day 15 9)], 1)
   \<and> strptime_ymd ''2024-01-16'' = Some (2024, 1, 16)
   \<and> get_user_meals example_state ''alice'' (Some ''2024-01-16'')
        = Inr ([example_meal ''m3'' ''alice'' (on_day 16 8)], 1)
   \<and> strptime_ymd ''2024-01-17'' = Some (2024, 1, 17)
   \<and> get_user_meals example_state ''alice'' (Some ''2024-01-17'') = Inr ([], 0)
   \<and> strptime_ymd ''2024-1-15'' = Some (2024, 1, 15)
   \<and> strptime_ymd ''2024-02-29'' = Some (2024, 2, 29)
   \<and> strptime_ymd ''2024-13-01'' = None
   \<and> get_user_meals example_state ''alice'' (Some ''2024-13-01'') = Inl InvalidDateFormat
   \<and> strptime_ymd ''15-01-2024'' = None
   \<and> get_user_meals example_state ''alice'' (Some ''15-01-2024'') = Inl InvalidDateFormat
   \<and> strptime_ymd ''2024-02-30'' = None
   \<and> get_user_meals example_state ''alice'' (Some ''2024-02-30'') = Inl InvalidDateFormat
   \<and> strptime_ymd ''2023-02-29'' = None
   \<and> strptime_ymd ''2024/01/15'' = None
   \<and> strptime_ymd ''2024-01-15T10:00:00'' = None
   \<and> strptime_ymd ''yesterday'' = None
   \<and> get_user_meals example_state ''alice'' (Some ''yesterday'') = Inl InvalidDateFormat
   \<and> valid_date 2024 1 16 \<and> date_isoformat (2024, 1, 16) = ''2024-01-16''
   \<and> get_user_meals example_state ''alice'' (Some (date_isoformat (2024, 1, 16)))
        = Inr ([example_meal ''m3'' ''alice'' (on_day 16 8)], 1)"
proof -
  let ?m1 = "example_meal ''m1'' ''alice'' (on_day 15 8)"
  let ?m2 = "example_meal ''m2'' ''bob'' (on_day 15 9)"
  let ?m3 = "example_meal ''m3'' ''alice'' (on_day 16 8)"
  let ?m4 = "example_meal ''m4'' ''alice'' (on_day 15 20)"
  have u: "dict_in ''alice'' (users example_state)" "dict_in ''bob'' (users example_state)"
          "\<not> dict_in ''carol'' (users example_state)"
    by (simp_all add: dict_in_def example_state_def)
  have ms: "map snd (meals example_state) = [?m1, ?m2, ?m3, ?m4]"
    by (simp add: example_state_def)
  have f [simp]: "user_id (example_meal i v t) = v"
       "date_of (logged_at (example_meal i v (on_day k h))) = (2024, 1, k)"
    for i v t k h
    by (simp_all add: example_meal_def on_day_def date_of_def)
  have p: "strptime_ymd ''2024-01-15'' = Some (2024, 1, 15)"
          "strptime_ymd ''2024-01-16'' = Some (2024, 1, 16)"
          "strptime_ymd ''2024-01-17'' = Some (2024, 1, 17)"
          "strptime_ymd ''2024-1-15'' = Some (2024, 1, 15)"
          "strptime_ymd ''2024-02-29'' = Some (2024, 2, 29)"
    by (simp_all add: strptime_eval)
  have q: "strptime_ymd ''2024-13-01'' = None"
          "strptime_ymd ''15-01-2024'' = None"
          "strptime_ymd ''2024-02-30'' = None"
          "strptime_ymd ''2023-02-29'' = None"
          "strptime_ymd ''2024/01/15'' = None"
          "strptime_ymd ''2024-01-15T10:00:00'' = None"
          "strptime_ymd ''yesterday'' = None"
    by (simp_all add: strptime_eval)
  have v: "valid_date 2024 1 16" by (simp add: strptime_eval)
  have iso: "date_isoformat (2024, 1, 16) = ''2024-01-16''"
    by (simp add: date_isoformat_def digit_char_def char_of_def bit_0)
  have c0: "get_user_meals example_state ''carol'' (Some ''2024-01-15'') = Inl UserNotFound"
    using get_user_meals_date_filter
            [of "''carol''" example_state "Some ''2024-01-15''" "''2024-01-15''" "(2024, 1, 15)" 2024 1 16] u by simp
  have c1: "get_user_meals example_state ''alice'' None = Inr ([?m1, ?m3, ?m4], 3)"
    using get_user_meals_date_filter
            [of "''alice''" example_state "None" "''2024-01-15''" "(2024, 1, 15)" 2024 1 16] u unfolding ms by simp
  have c2: "get_user_meals example_state ''alice'' (Some '''') = Inr ([?m1, ?m3, ?m4], 3)"
    using get_user_meals_date_filter
            [of "''alice''" example_state "None" "''2024-01-15''" "(2024, 1, 15)" 2024 1 16] u unfolding ms by simp
  have c3: "get_user_meals example_state ''alice'' (Some ''2024-01-15'') = Inr ([?m1, ?m4], 2)"
    using get_user_meals_date_filter
            [of "''alice''" example_state "None" "''2024-01-15''" "(2024, 1, 15)" 2024 1 16] u p
    unfolding ms by simp
  have c4: "get_user_meals example_state ''bob'' (Some ''2024-01-15'') = Inr ([?m2], 1)"
    using get_user_meals_date_filter
            [of "''bob''" example_state "None" "''2024-01-15''" "(2024, 1, 15)" 2024 1 16] u p
    unfolding ms by simp
  have c5: "get_user_meals example_state ''alice'' (Some ''2024-01-16'') = Inr ([?m3], 1)"
    using get_user_meals_date_filter
            [of "''alice''" example_state "None" "''2024-01-16''" "(2024, 1, 16)" 2024 1 16] u p
    unfolding ms by simp
  have c6: "get_user_meals example_state ''alice'' (Some ''2024-01-17'') = Inr ([], 0)"
    using get_user_meals_date_filter
            [of "''alice''" example_state "None" "''2024-01-17''" "(2024, 1, 17)" 2024 1 16] u p
    unfolding ms by simp
  have c7: "get_user_meals example_state ''alice'' (Some ''2024-13-01'') = Inl InvalidDateFormat"
    using get_user_meals_date_filter
            [of "''alice''" example_state "None" "''2024-13-01''" "(2024, 1, 15)" 2024 1 16] u q by simp
  have c8: "get_user_meals example_state ''alice'' (Some ''15-01-2024'') = Inl InvalidDateFormat"
    using get_user_meals_date_filter
            [of "''alice''" example_state "None" "''15-01-2024''" "(2024, 1, 15)" 2024 1 16] u q by simp
  have c9: "get_user_meals example_state ''alice'' (Some ''2024-02-30'') = Inl InvalidDateFormat"
    using get_user_meals_date_filter
            [of "''alice''" example_state "None" "''2024-02-30''" "(2024, 1, 15)" 2024 1 16] u q by simp
  have c10: "get_user_meals example_state ''alice'' (Some ''yesterday'') = Inl InvalidDateFormat"
    using get_user_meals_date_filter
            [of "''alice''" example_state "None" "''yesterday''" "(2024, 1, 15)" 2024 1 16] u q by simp
  have c11: "get_user_meals example_state ''alice'' (Some (date_isoformat (2024, 1, 16))) = Inr ([?m3], 1)"
    using get_user_meals_date_filter
            [of "''alice''" example_state "None" "''2024-01-15''" "(2024, 1, 15)" 2024 1 16] u v
    unfolding ms by simp
  show ?thesis
    using u c0 c1 c2 p c3 c4 c5 c6 q c7 c8 c9 c10 v iso c11 by simp
qed

subsection \<open>Status of a user\<close>

lemma status_loop_fields:
  "calories (status_loop t ms) = foldl py_add (calories t) (map (\<lambda>m. calories (nutrients m)) ms)
   \<and> protein (status_loop t ms) = foldl py_add (protein t) (map (\<lambda>m. protein (nutrients m)) ms)
   \<and> carbs (status_loop t ms) = foldl py_add (carbs t) (map (\<lambda>m. carbs (nutrients m)) ms)
   \<and> fiber (status_loop t ms) = foldl py_add (fiber t) (map (\<lambda>m. fiber (nutrients m)) ms)"
  by (induction ms arbitrary: t) (simp_all add: add_totals_def)

lemma status_loop_sum:
  "status_loop zero_totals ms =
     \<lparr>calories = foldl py_add (PInt 0) (map (\<lambda>m. calories (nutrients m)) ms),
      protein = foldl py_add (PInt 0) (map (\<lambda>m. protein (nutrients m)) ms),
      carbs = foldl py_add (PInt 0) (map (\<lambda>m. carbs (nutrients m)) ms),
      fiber = foldl py_add (PInt 0) (map (\<lambda>m. fiber (nutrients m)) ms)\<rparr>"
  using status_loop_fields[of zero_totals ms] by (simp add: zero_totals_def)

lemma run_reachable_inv: "inv (snd (run init rs))"
proof -
  obtain xs s' where r: "run init rs = (xs, s')" by (cases "run init rs")
  from run_inv[OF inv_init r] show ?thesis by (simp add: r)
qed

lemma no_meals_of_fresh_user:
  assumes "inv s" "i \<notin> user_keys s"
  shows "filter (\<lambda>m. user_id m = i) (map snd (meals s)) = []"
proof -
  have "\<forall>m \<in> set (map snd (meals s)). user_id m \<noteq> i"
    using assms by (auto simp: inv_def)
  then show ?thesis by (simp add: filter_empty_conv)
qed

lemma log_meals_known_user:
  assumes "inv s" "dict_in u (users s)" "py_lower mt \<in> set valid_meals"
  shows "\<exists>i. log_meals s \<lparr>user = u, meal = mt, items = fs\<rparr> ts now =
           (Inr (i, calculate_nutrients fs),
            s\<lparr>meals := meals s @
                 [(i, \<lparr>mid = i, user_id = u, meal_type = py_lower mt, food_items = fs,
                       logged_at = now, nutrients = calculate_nutrients fs\<rparr>)]\<rparr>)"
proof -
  let ?i = "''meal_'' @ str_nat (length (meals s) + 1) @ ''_'' @ str_int ts"
  have fresh: "?i \<notin> fst ` set (meals s)"
    using assms(1) by (intro meal_key_fresh) (simp add: inv_def user_keys_def meal_keys_def)
  have "log_meals s \<lparr>user = u, meal = mt, items = fs\<rparr> ts now =
           (Inr (?i, calculate_nutrients fs),
            s\<lparr>meals := dict_set ?i
                  \<lparr>mid = ?i, user_id = u, meal_type = py_lower mt, food_items = fs,
                   logged_at = now, nutrients = calculate_nutrients fs\<rparr> (meals s)\<rparr>)"
    using assms(2,3) by (simp add: log_meals_def Let_def)
  then show ?thesis unfolding dict_set_fresh[OF fresh] by blast
qed

text \<open>
  Claim C1. For every user \<open>u\<close> stored in the registry, the status query succeeds and
  returns the name and \<^verbatim>\<open>bmr\<close> of the stored record, as consumed totals the field-wise sums
  of the stored nutrient totals of the meals whose \<^verbatim>\<open>user_id\<close> is \<open>u\<close>, added with \<^verbatim>\<open>+\<close> from 0
  in the order of the ledger, and as \<^verbatim>\<open>total_meals\<close> the number of those meals. In
  particular, in any state reached from the empty one, registering a user and then logging
  two meals \<open>M1\<close> and \<open>M2\<close> of valid type for the identifier returned: both logs succeed and
  return the aggregates of \<open>M1\<close> and of \<open>M2\<close>, and the status of that user then has the
  field-wise sum of the two aggregates as totals, 2 as \<^verbatim>\<open>total_meals\<close>, and the registered
  name and \<^verbatim>\<open>bmr\<close>.
\<close>

theorem status_totals:
  "(map_of (users s) u = Some usr \<longrightarrow>
      get_user_status s u =
        Inr \<lparr>status_user = u, status_name = name usr, status_bmr = bmr usr,
             consumed_nutrients =
               \<lparr>calories = foldl py_add (PInt 0) (map (\<lambda>m. calories (nutrients m))
                              (filter (\<lambda>m. user_id m = u) (map snd (meals s)))),
                protein = foldl py_add (PInt 0) (map (\<lambda>m. protein (nutrients m))
                              (filter (\<lambda>m. user_id m = u) (map snd (meals s)))),
                carbs = foldl py_add (PInt 0) (map (\<lambda>m. carbs (nutrients m))
                              (filter (\<lambda>m. user_id m = u) (map snd (meals s)))),
                fiber = foldl py_add (PInt 0) (map (\<lambda>m. fiber (nutrients m))
                              (filter (\<lambda>m. user_id m = u) (map snd (meals s))))\<rparr>,
             total_meals = length (filter (\<lambda>m. user_id m = u) (map snd (meals s)))\<rparr>)
   \<and> (register_user (snd (run init rs)) d t1 n1 = (Inr (i, b), s1)
        \<and> py_lower mt1 \<in> set valid_meals \<and> py_lower mt2 \<in> set valid_meals
        \<and> log_meals s1 \<lparr>user = i, meal = mt1, items = M1\<rparr> t2 n2 = (r2, s2)
        \<and> log_meals s2 \<lparr>user = i, meal = mt2, items = M2\<rparr> t3 n3 = (r3, s3) \<longrightarrow>
      (\<exists>i2 i3. r2 = Inr (i2, calculate_nutrients M1) \<and> r3 = Inr (i3, calculate_nutrients M2))
      \<and> get_user_status s3 i =
        Inr \<lparr>status_user = i, status_name = name d, status_bmr = b,
             consumed_nutrients = add_totals (calculate_nutrients M1) (calculate_nutrients M2),
             total_meals = 2\<rparr>)"
proof -
  have A: "get_user_status s u =
        Inr \<lparr>status_user = u, status_name = name usr, status_bmr = bmr usr,
             consumed_nutrients =
               \<lparr>calories = foldl py_add (PInt 0) (map (\<lambda>m. calories (nutrients m))
                              (filter (\<lambda>m. user_id m = u) (map snd (meals s)))),
                protein = foldl py_add (PInt 0) (map (\<lambda>m. protein (nutrients m))
                              (filter (\<lambda>m. user_id m = u) (map snd (meals s)))),
                carbs = foldl py_add (PInt 0) (map (\<lambda>m. carbs (nutrients m))
                              (filter (\<lambda>m. user_id m = u) (map snd (meals s)))),
                fiber = foldl py_add (PInt 0) (map (\<lambda>m. fiber (nutrients m))
                              (filter (\<lambda>m. user_id m = u) (map snd (meals s))))\<rparr>,
             total_meals = length (filter (\<lambda>m. user_id m = u) (map snd (meals s)))\<rparr>"
    if "map_of (users s) u = Some usr"
    using that by (simp add: get_user_status_def Let_def status_loop_sum)
  have B: "(\<exists>i2 i3. r2 = Inr (i2, calculate_nutrients M1) \<and> r3 = Inr (i3, calculate_nutrients M2))
      \<and> get_user_status s3 i =
        Inr \<lparr>status_user = i, status_name = name d, status_bmr = b,
             consumed_nutrients = add_totals (calculate_nutrients M1) (calculate_nutrients M2),
             total_meals = 2\<rparr>"
    if reg: "register_user (snd (run init rs)) d t1 n1 = (Inr (i, b), s1)"
      and v1: "py_lower mt1 \<in> set valid_meals" and v2: "py_lower mt2 \<in> set valid_meals"
      and l1: "log_meals s1 \<lparr>user = i, meal = mt1, items = M1\<rparr> t2 n2 = (r2, s2)"
      and l2: "log_meals s2 \<lparr>user = i, meal = mt2, items = M2\<rparr> t3 n3 = (r3, s3)"
  proof -
    let ?s = "snd (run init rs)"
    let ?rec = "\<lparr>name = name d, age = age d, weight = weight d, height = height d,
                 gender = gender d, goal = goal d, uid = i, bmr = b, created_at = n1\<rparr>"
    have inv0: "inv ?s" by (rule run_reachable_inv)
    note R = register_user_inv[OF inv0 reg]
    then have inv1: "inv s1" and fresh: "i \<notin> user_keys ?s" and m1: "meals s1 = meals ?s"
      and in1: "i \<in> user_keys s1"
      by auto
    have u1: "map_of (users s1) i = Some ?rec"
      using reg
      by (cases "calculate_bmr (weight d) (height d) (age d) (gender d)")
         (auto simp: register_user_def Let_def map_of_dict_set)
    have d1: "dict_in i (users s1)" using u1 by (simp add: dict_in_def)
    have none: "filter (\<lambda>m. user_id m = i) (map snd (meals s1)) = []"
      unfolding m1 by (rule no_meals_of_fresh_user[OF inv0 fresh])
    obtain i2 where e2: "r2 = Inr (i2, calculate_nutrients M1)"
      and s2: "s2 = s1\<lparr>meals := meals s1 @
                 [(i2, \<lparr>mid = i2, user_id = i, meal_type = py_lower mt1, food_items = M1,
                       logged_at = n2, nutrients = calculate_nutrients M1\<rparr>)]\<rparr>"
      using log_meals_known_user[OF inv1 d1 v1, of M1 t2 n2] l1 by auto
    have inv2: "inv s2" using log_meals_inv[OF inv1 l1] by blast
    have d2: "dict_in i (users s2)" using d1 by (simp add: s2)
    obtain i3 where e3: "r3 = Inr (i3, calculate_nutrients M2)"
      and s3: "s3 = s2\<lparr>meals := meals s2 @
                 [(i3, \<lparr>mid = i3, user_id = i, meal_type = py_lower mt2, food_items = M2,
                       logged_at = n3, nutrients = calculate_nutrients M2\<rparr>)]\<rparr>"
      using log_meals_known_user[OF inv2 d2 v2, of M2 t3 n3] l2 by auto
    have u3: "map_of (users s3) i = Some ?rec" using u1 by (simp add: s3 s2)
    have f3: "filter (\<lambda>m. user_id m = i) (map snd (meals s3)) =
              [\<lparr>mid = i2, user_id = i, meal_type = py_lower mt1, food_items = M1,
                logged_at = n2, nutrients = calculate_nutrients M1\<rparr>,
               \<lparr>mid = i3, user_id = i, meal_type = py_lower mt2, food_items = M2,
                logged_at = n3, nutrients = calculate_nutrients M2\<rparr>]"
      using none by (simp add: s3 s2)
    have "get_user_status s3 i =
        Inr \<lparr>status_user = i, status_name = name d, status_bmr = b,
             consumed_nutrients = add_totals (calculate_nutrients M1) (calculate_nutrients M2),
             total_meals = 2\<rparr>"
      by (simp add: get_user_status_def u3 f3 Let_def add_totals_zero_left)
    then show ?thesis using e2 e3 by blast
  qed
  show ?thesis using A B by blast
qed

theorem status_totals_witness:
  "fst (register_user (snd (run init [Webhook ''log dinner:dal'' epoch 0 epoch]))
          \<lparr>name = ''John Doe'', age = 25, weight = float_lit 70, height = float_lit 170,
           gender = ''male'', goal = ''weight loss''\<rparr> 0 epoch)
     = Inr (''user_2_0'', float_lit (170006 / 100))
   \<and> py_lower ''Breakfast'' \<in> set valid_meals \<and> py_lower ''lunch'' \<in> set valid_meals
   \<and> get_user_status
        (snd (run init
          [Webhook ''log dinner:dal'' epoch 0 epoch,
           Register \<lparr>name = ''John Doe'', age = 25, weight = float_lit 70, height = float_lit 170,
                     gender = ''male'', goal = ''weight loss''\<rparr> 0 epoch,
           LogMeals \<lparr>user = ''user_2_0'', meal = ''Breakfast'', items = [''rice'', ''dal'']\<rparr> 0 epoch,
           LogMeals \<lparr>user = ''user_2_0'', meal = ''lunch'', items = [''bread'']\<rparr> 0 epoch]))
        ''user_2_0''
     = Inr \<lparr>status_user = ''user_2_0'', status_name = ''John Doe'',
            status_bmr = float_lit (170006 / 100),
            consumed_nutrients =
              \<lparr>calories = PInt 511, protein = PFloat (37 / 2), carbs = PInt 97,
               fiber = PFloat (1491817376566477 / 140737488355328)\<rparr>,
            total_meals = 2\<rparr>
   \<and> get_user_status
        (snd (run init
          [Webhook ''log dinner:dal'' epoch 0 epoch,
           Register \<lparr>name = ''John Doe'', age = 25, weight = float_lit 70, height = float_lit 170,
                     gender = ''male'', goal = ''weight loss''\<rparr> 0 epoch,
           LogMeals \<lparr>user = ''user_2_0'', meal = ''Breakfast'', items = [''rice'', ''dal'']\<rparr> 0 epoch,
           LogMeals \<lparr>user = ''user_2_0'', meal = ''lunch'', items = [''bread'']\<rparr> 0 epoch]))
        ''webhook_user''
     = Inr \<lparr>status_user = ''webhook_user'', status_name = ''Webhook User'',
            status_bmr = float_lit (170006 / 100),
            consumed_nutrients =
              \<lparr>calories = PInt 116, protein = PFloat (7656119366529843 / 1125899906842624),
               carbs = PInt 20, fiber = PFloat (15 / 2)\<rparr>,
            total_meals = 1\<rparr>"
proof -
  let ?b = "float_lit (170006 / 100)"
  let ?reg = "\<lparr>name = ''John Doe'', age = 25, weight = float_lit 70, height = float_lit 170,
               gender = ''male'', goal = ''weight loss''\<rparr>"
  let ?d1 = "\<lparr>user = ''user_2_0'', meal = ''Breakfast'', items = [''rice'', ''dal'']\<rparr>"
  let ?d2 = "\<lparr>user = ''user_2_0'', meal = ''lunch'', items = [''bread'']\<rparr>"
  let ?W = "Webhook ''log dinner:dal'' epoch 0 epoch"
  let ?wu = "webhook_user_rec ?b epoch"
  let ?u2 = "\<lparr>name = ''John Doe'', age = 25, weight = float_lit 70, height = float_lit 170,
               gender = ''male'', goal = ''weight loss'', uid = ''user_2_0'', bmr = ?b,
               created_at = epoch\<rparr>"
  let ?m1 = "\<lparr>mid = ''webhook_meal_1_0'', user_id = ''webhook_user'', meal_type = ''dinner'',
               food_items = [''dal''], logged_at = epoch, nutrients = calculate_nutrients [''dal'']\<rparr>"
  let ?m2 = "\<lparr>mid = ''meal_2_0'', user_id = ''user_2_0'', meal_type = ''breakfast'',
               food_items = [''rice'', ''dal''], logged_at = epoch,
               nutrients = calculate_nutrients [''rice'', ''dal'']\<rparr>"
  let ?m3 = "\<lparr>mid = ''meal_3_0'', user_id = ''user_2_0'', meal_type = ''lunch'',
               food_items = [''bread''], logged_at = epoch,
               nutrients = calculate_nutrients [''bread'']\<rparr>"
  let ?S0 = "\<lparr>users = [(''webhook_user'', ?wu)], meals = [(''webhook_meal_1_0'', ?m1)]\<rparr>"
  let ?S1 = "\<lparr>users = [(''webhook_user'', ?wu), (''user_2_0'', ?u2)],
             meals = [(''webhook_meal_1_0'', ?m1)]\<rparr>"
  let ?S2 = "\<lparr>users = [(''webhook_user'', ?wu), (''user_2_0'', ?u2)],
             meals = [(''webhook_meal_1_0'', ?m1), (''meal_2_0'', ?m2)]\<rparr>"
  let ?S3 = "\<lparr>users = [(''webhook_user'', ?wu), (''user_2_0'', ?u2)],
             meals = [(''webhook_meal_1_0'', ?m1), (''meal_2_0'', ?m2), (''meal_3_0'', ?m3)]\<rparr>"
  have n: "str_nat 1 = ''1''" "str_nat 2 = ''2''" "str_nat 3 = ''3''" "str_nat (Suc 0) = ''1''"
          "str_nat (Suc (Suc 0)) = ''2''" "str_nat (Suc (Suc (Suc 0))) = ''3''"
          "str_nat (Suc 1) = ''2''" "str_nat (Suc 2) = ''3''" "str_int 0 = ''0''"
    by code_simp+
  have l: "py_lower ''Breakfast'' = ''breakfast''" "py_lower ''lunch'' = ''lunch''"
    by code_simp+
  have p: "py_strip ''log dinner:dal'' = ''log dinner:dal''"
          "py_split1 CHR '':'' ''dinner:dal'' = [''dinner'', ''dal'']"
          "py_lower (py_strip ''dinner'') = ''dinner''"
          "py_strip ''dal'' = ''dal''"
          "py_split CHR '','' ''dal'' = [''dal'']"
    by code_simp+
  have v: "py_lower ''Breakfast'' \<in> set valid_meals" "py_lower ''lunch'' \<in> set valid_meals"
    by (simp_all add: l valid_meals_def)
  have s0: "step init ?W = (MealId ''webhook_meal_1_0'', ?S0)"
    by (simp add: webhook_handler_def dict_in_def default_user_def valid_meals_def startswith_def
          init_def p webhook_bmr n Let_def)
  have r0: "run init [?W] = ([MealId ''webhook_meal_1_0''], ?S0)"
    by (simp only: run.simps s0 prod.case)
  have reg: "register_user ?S0 ?reg 0 epoch = (Inr (''user_2_0'', ?b), ?S1)"
    by (simp add: register_user_def webhook_bmr n Let_def)
  have l1: "log_meals ?S1 ?d1 0 epoch = (Inr (''meal_2_0'', calculate_nutrients [''rice'', ''dal'']), ?S2)"
    by (simp add: log_meals_def dict_in_def valid_meals_def l n Let_def)
  have l2: "log_meals ?S2 ?d2 0 epoch = (Inr (''meal_3_0'', calculate_nutrients [''bread'']), ?S3)"
    by (simp add: log_meals_def dict_in_def valid_meals_def l n Let_def)
  have s1: "step ?S0 (Register ?reg 0 epoch) = (UserId ''user_2_0'', ?S1)"
    by (simp only: step.simps reg prod.case sum.case)
  have s2: "step ?S1 (LogMeals ?d1 0 epoch) = (MealId ''meal_2_0'', ?S2)"
    by (simp only: step.simps l1 prod.case sum.case)
  have s3: "step ?S2 (LogMeals ?d2 0 epoch) = (MealId ''meal_3_0'', ?S3)"
    by (simp only: step.simps l2 prod.case sum.case)
  have r3: "snd (run init [?W, Register ?reg 0 epoch, LogMeals ?d1 0 epoch, LogMeals ?d2 0 epoch]) = ?S3"
    by (simp only: run.simps s0 s1 s2 s3 prod.case snd_conv)
  have k: "py_strip (py_lower ''rice'') = ''rice''" "py_strip (py_lower ''dal'') = ''dal''"
          "py_strip (py_lower ''bread'') = ''bread''"
    by code_simp+
  have d0: "calculate_nutrients [''dal''] =
      add_totals zero_totals
        (nt (PInt 116) (PFloat (float_lit (68 / 10))) (PInt 20) (PFloat (float_lit (75 / 10))))"
    by (simp add: calculate_nutrients_def k food_database_def)
  have d1: "calculate_nutrients [''rice'', ''dal''] =
      add_totals (add_totals zero_totals
        (nt (PInt 130) (PFloat (float_lit (27 / 10))) (PInt 28) (PFloat (float_lit (4 / 10)))))
        (nt (PInt 116) (PFloat (float_lit (68 / 10))) (PInt 20) (PFloat (float_lit (75 / 10))))"
    by (simp add: calculate_nutrients_def k food_database_def)
  have d2: "calculate_nutrients [''bread''] =
      add_totals zero_totals
        (nt (PInt 265) (PInt 9) (PInt 49) (PFloat (float_lit (27 / 10))))"
    by (simp add: calculate_nutrients_def k food_database_def)
  have e0: "add_totals zero_totals
        (nt (PInt 116) (PFloat (float_lit (68 / 10))) (PInt 20) (PFloat (float_lit (75 / 10))))
      = \<lparr>calories = PInt 116, protein = PFloat (7656119366529843 / 1125899906842624),
         carbs = PInt 20, fiber = PFloat (15 / 2)\<rparr>"
    by code_simp
  have e1: "add_totals
        (add_totals (add_totals zero_totals
          (nt (PInt 130) (PFloat (float_lit (27 / 10))) (PInt 28) (PFloat (float_lit (4 / 10)))))
          (nt (PInt 116) (PFloat (float_lit (68 / 10))) (PInt 20) (PFloat (float_lit (75 / 10)))))
        (add_totals zero_totals
          (nt (PInt 265) (PInt 9) (PInt 49) (PFloat (float_lit (27 / 10)))))
      = \<lparr>calories = PInt 511, protein = PFloat (37 / 2), carbs = PInt 97,
         fiber = PFloat (1491817376566477 / 140737488355328)\<rparr>"
    by code_simp
  have N0: "calculate_nutrients [''dal''] =
        \<lparr>calories = PInt 116, protein = PFloat (7656119366529843 / 1125899906842624),
         carbs = PInt 20, fiber = PFloat (15 / 2)\<rparr>"
    by (simp only: d0 e0)
  have NT: "add_totals (calculate_nutrients [''rice'', ''dal'']) (calculate_nutrients [''bread''])
      = \<lparr>calories = PInt 511, protein = PFloat (37 / 2), carbs = PInt 97,
         fiber = PFloat (1491817376566477 / 140737488355328)\<rparr>"
    by (simp only: d1 d2 e1)
  have c0: "fst (register_user (snd (run init [?W])) ?reg 0 epoch) = Inr (''user_2_0'', ?b)"
    by (simp only: r0 snd_conv reg fst_conv)
  have reg': "register_user (snd (run init [?W])) ?reg 0 epoch = (Inr (''user_2_0'', ?b), ?S1)"
    by (simp only: r0 snd_conv reg)
  have c1: "get_user_status ?S3 ''user_2_0'' =
      Inr \<lparr>status_user = ''user_2_0'', status_name = ''John Doe'', status_bmr = ?b,
            consumed_nutrients =
              \<lparr>calories = PInt 511, protein = PFloat (37 / 2), carbs = PInt 97,
               fiber = PFloat (1491817376566477 / 140737488355328)\<rparr>,
            total_meals = 2\<rparr>"
    using status_totals [where rs = "[?W]" and d = ?reg and ?t1.0 = 0 and ?n1.0 = epoch
            and i = "''user_2_0''" and b = ?b and ?s1.0 = ?S1
            and ?mt1.0 = "''Breakfast''" and ?mt2.0 = "''lunch''"
            and ?M1.0 = "[''rice'', ''dal'']" and ?M2.0 = "[''bread'']"
            and ?t2.0 = 0 and ?n2.0 = epoch and ?t3.0 = 0 and ?n3.0 = epoch
            and ?r2.0 = "Inr (''meal_2_0'', calculate_nutrients [''rice'', ''dal''])"
            and ?r3.0 = "Inr (''meal_3_0'', calculate_nutrients [''bread''])"
            and ?s2.0 = ?S2 and ?s3.0 = ?S3
            and s = ?S3 and u = "''webhook_user''" and usr = ?wu]
          reg' v l1 l2
    unfolding NT by simp
  have wf: "py_add (PInt 0) (calories (calculate_nutrients [''dal''])) = calories (calculate_nutrients [''dal''])"
    "py_add (PInt 0) (protein (calculate_nutrients [''dal''])) = protein (calculate_nutrients [''dal''])"
    "py_add (PInt 0) (carbs (calculate_nutrients [''dal''])) = carbs (calculate_nutrients [''dal''])"
    "py_add (PInt 0) (fiber (calculate_nutrients [''dal''])) = fiber (calculate_nutrients [''dal''])"
    using wf_calculate_nutrients[of "[''dal'']"] by (simp_all add: wf_totals_def py_add_zero_left)
  have c2': "get_user_status ?S3 ''webhook_user'' =
      Inr \<lparr>status_user = ''webhook_user'', status_name = ''Webhook User'', status_bmr = ?b,
            consumed_nutrients =
              \<lparr>calories = calories (calculate_nutrients [''dal'']),
               protein = protein (calculate_nutrients [''dal'']),
               carbs = carbs (calculate_nutrients [''dal'']),
               fiber = fiber (calculate_nutrients [''dal''])\<rparr>,
            total_meals = 1\<rparr>"
    using status_totals [where rs = "[?W]" and d = ?reg and ?t1.0 = 0 and ?n1.0 = epoch
            and i = "''user_2_0''" and b = ?b and ?s1.0 = ?S1
            and ?mt1.0 = "''Breakfast''" and ?mt2.0 = "''lunch''"
            and ?M1.0 = "[''rice'', ''dal'']" and ?M2.0 = "[''bread'']"
            and ?t2.0 = 0 and ?n2.0 = epoch and ?t3.0 = 0 and ?n3.0 = epoch
            and ?r2.0 = "Inr (''meal_2_0'', calculate_nutrients [''rice'', ''dal''])"
            and ?r3.0 = "Inr (''meal_3_0'', calculate_nutrients [''bread''])"
            and ?s2.0 = ?S2 and ?s3.0 = ?S3
            and s = ?S3 and u = "''webhook_user''" and usr = ?wu]
    by (simp add: wf webhook_user_rec_def)
  have c2: "get_user_status ?S3 ''webhook_user'' =
      Inr \<lparr>status_user = ''webhook_user'', status_name = ''Webhook User'', status_bmr = ?b,
            consumed_nutrients =
              \<lparr>calories = PInt 116, protein = PFloat (7656119366529843 / 1125899906842624),
               carbs = PInt 20, fiber = PFloat (15 / 2)\<rparr>,
            total_meals = 1\<rparr>"
    using c2' unfolding N0 by simp
  show ?thesis
    unfolding r3 using c0 v c1 c2 by blast
qed

end
